theory Spec2Isabelle
  imports Main
begin

section \<open>The parsed schema\<close>

text \<open>
  The validator of \<^verbatim>\<open>src/validation/schema.js\<close> works on the document that the GraphQL
  parser returns. Its nodes are modelled as the validator reads them: a node kind is a
  constructor, an attribute that the validator reads is a record field or a constructor
  argument. A JavaScript exception is a value of \<open>exn\<close>; a function that can throw returns
  \<open>exn + 'a\<close>, with \<open>Inl\<close> for the exception.
\<close>

datatype exn = TypeError | ReferenceError

record location =
  loc_start :: nat
  loc_end :: nat

text \<open>A type expression: \<open>T\<close>, \<open>[t]\<close> and \<open>t!\<close>. \<open>ofType\<close> is the attribute \<^verbatim>\<open>.type\<close> of a
  list or non-null node.\<close>

datatype gtype =
  is_NamedType: NamedType string
| is_ListType: ListType (ofType: gtype)
| is_NonNullType: NonNullType (ofType: gtype)

text \<open>A literal value. An object field is its name, the location of its name and its value.\<close>

datatype gvalue =
  Variable string
| IntValue string
| FloatValue string
| is_StringValue: StringValue string
| BooleanValue bool
| NullValue
| EnumValue string
| is_ListValue: ListValue "gvalue list"
| is_ObjectValue: ObjectValue "(string \<times> location \<times> gvalue) list"

record gql_argument =
  arg_name :: string
  arg_value :: gvalue

record gql_directive =
  dir_name :: string
  dir_name_loc :: location
  dir_loc :: location
  dir_arguments :: "gql_argument list"

text \<open>Of the argument definitions of a field the validator only reads how many there are;
  \<open>f_arguments\<close> keeps their names.\<close>

record gql_field =
  f_name :: string
  f_loc :: location
  f_type :: gtype
  f_arguments :: "string list"
  f_directives :: "gql_directive list"

datatype def_kind =
  ObjectTypeDefinition
| ObjectTypeExtension
| EnumTypeDefinition
| InterfaceTypeDefinition
| ScalarTypeDefinition
| UnionTypeDefinition
| InputObjectTypeDefinition

record gql_def =
  d_kind :: def_kind
  d_name :: string
  d_name_loc :: location
  d_loc :: location
  d_fields :: "gql_field list"
  d_directives :: "gql_directive list"

text \<open>
  The JavaScript values that occur as the name of a gathered type and as the \<^verbatim>\<open>entity\<close> of
  a diagnostic: a string almost always, but \<^verbatim>\<open>gatherImportedTypes\<close> reads the attribute
  \<^verbatim>\<open>.value\<close> of an arbitrary literal, which is a boolean on a boolean literal and absent on
  a list, an object and \<^verbatim>\<open>null\<close>.
\<close>

datatype jsval = JUndefined | JBool bool | JStr string

fun truthy :: "jsval \<Rightarrow> bool" where
  "truthy JUndefined = False"
| "truthy (JBool b) = b"
| "truthy (JStr s) = (s \<noteq> [])"

fun to_string :: "jsval \<Rightarrow> string" where
  "to_string JUndefined = ''undefined''"
| "to_string (JBool b) = (if b then ''true'' else ''false'')"
| "to_string (JStr s) = s"

text \<open>\<^verbatim>\<open>node.value\<close> on a literal.\<close>

fun value_attr :: "gvalue \<Rightarrow> jsval" where
  "value_attr (IntValue s) = JStr s"
| "value_attr (FloatValue s) = JStr s"
| "value_attr (StringValue s) = JStr s"
| "value_attr (EnumValue s) = JStr s"
| "value_attr (BooleanValue b) = JBool b"
| "value_attr (Variable v) = JUndefined"
| "value_attr NullValue = JUndefined"
| "value_attr (ListValue vs) = JUndefined"
| "value_attr (ObjectValue fs) = JUndefined"

text \<open>\<^verbatim>\<open>type.name.value\<close>: only a named type has a name; on a list or non-null node
  \<^verbatim>\<open>.name\<close> is \<^verbatim>\<open>undefined\<close> and reading \<^verbatim>\<open>.value\<close> of it throws a TypeError.\<close>

fun name_value :: "gtype \<Rightarrow> exn + string" where
  "name_value (NamedType n) = Inr n"
| "name_value (ListType t) = Inl TypeError"
| "name_value (NonNullType t) = Inl TypeError"

record diagnostic =
  diag_loc :: location
  diag_entity :: jsval
  diag_message :: string

definition quoted :: "string \<Rightarrow> string" where
  "quoted s = [CHR 0x27] @ s @ [CHR 0x27]"

section \<open>Sequencing of computations that can throw\<close>

text \<open>\<^verbatim>\<open>xs.reduce((errors, x) => errors.concat(f(x)), List())\<close>, where \<open>f\<close> can throw.\<close>

fun reduce_concat :: "('a \<Rightarrow> exn + 'b list) \<Rightarrow> 'b list \<Rightarrow> 'a list \<Rightarrow> exn + 'b list" where
  "reduce_concat f errors [] = Inr errors"
| "reduce_concat f errors (x # xs) =
     (case f x of Inl e \<Rightarrow> Inl e | Inr ys \<Rightarrow> reduce_concat f (errors @ ys) xs)"

text \<open>\<^verbatim>\<open>xs.map(f)\<close>, where \<open>f\<close> can throw.\<close>

fun map_exn :: "('a \<Rightarrow> exn + 'b) \<Rightarrow> 'a list \<Rightarrow> exn + 'b list" where
  "map_exn f [] = Inr []"
| "map_exn f (x # xs) =
     (case f x of Inl e \<Rightarrow> Inl e
      | Inr y \<Rightarrow> (case map_exn f xs of Inl e \<Rightarrow> Inl e | Inr ys \<Rightarrow> Inr (y # ys)))"

section \<open>Type suggestions\<close>

definition BUILTIN_SCALAR_TYPES :: "string list" where
  "BUILTIN_SCALAR_TYPES =
     [''Boolean'', ''Int'', ''BigDecimal'', ''String'', ''BigInt'', ''Bytes'', ''ID'']"

text \<open>
  An entry of \<^verbatim>\<open>TYPE_SUGGESTIONS\<close> is a string or a regular expression. Each regular
  expression of the table is anchored at both ends and is a sequence of two groups of
  alternatives, \<^verbatim>\<open>/^(a|b)(c|d)$/\<close>; \<open>Regex\<close> keeps the alternatives of the two groups
  (\<^verbatim>\<open>/^(u|uint)32$/\<close> has the one alternative \<^verbatim>\<open>32\<close>).
\<close>

datatype pattern = Str string | Regex "string list" "string list"

definition TYPE_SUGGESTIONS :: "(pattern \<times> string) list" where
  "TYPE_SUGGESTIONS =
    [(Str ''Address'', ''Bytes''),
     (Str ''address'', ''Bytes''),
     (Str ''bytes'', ''Bytes''),
     (Str ''string'', ''String''),
     (Str ''bool'', ''Boolean''),
     (Str ''boolean'', ''Boolean''),
     (Str ''Bool'', ''Boolean''),
     (Str ''float'', ''BigDecimal''),
     (Str ''Float'', ''BigDecimal''),
     (Str ''int'', ''Int''),
     (Str ''uint'', ''BigInt''),
     (Regex [''u'', ''uint''] [''8'', ''16'', ''24''], ''Int''),
     (Regex [''i'', ''int''] [''8'', ''16'', ''24'', ''32''], ''Int''),
     (Regex [''u'', ''uint''] [''32''], ''BigInt''),
     (Regex [''u'', ''uint'', ''i'', ''int'']
        [''40'', ''48'', ''56'', ''64'', ''72'', ''80'', ''88'', ''96'', ''104'', ''112'',
         ''120'', ''128'', ''136'', ''144'', ''152'', ''160'', ''168'', ''176'', ''184'',
         ''192'', ''200'', ''208'', ''216'', ''224'', ''232'', ''240'', ''248'', ''256''],
      ''BigInt'')]"

text \<open>\<^verbatim>\<open>typeof pattern === 'string' ? pattern === typeName : typeName.match(pattern)\<close>\<close>

fun pattern_matches :: "string \<Rightarrow> pattern \<Rightarrow> bool" where
  "pattern_matches typeName (Str p) = (p = typeName)"
| "pattern_matches typeName (Regex as bs) =
     (typeName \<in> set (concat (map (\<lambda>a. map (\<lambda>b. a @ b) bs) as)))"

text \<open>The first suggestion of the table whose pattern matches, \<open>None\<close> for
  \<^verbatim>\<open>undefined\<close>.\<close>

definition typeSuggestion :: "string \<Rightarrow> string option" where
  "typeSuggestion typeName =
     (case filter (\<lambda>(pattern, _). pattern_matches typeName pattern) TYPE_SUGGESTIONS of
        [] \<Rightarrow> None
      | (_, suggestion) # _ \<Rightarrow> Some suggestion)"

definition RESERVED_TYPE :: string where
  "RESERVED_TYPE = ''_Schema_''"

section \<open>Checks of an entity type\<close>

definition validateEntityDirective :: "gql_def \<Rightarrow> diagnostic list" where
  "validateEntityDirective def =
     (if find (\<lambda>directive. dir_name directive = ''entity'') (d_directives def) \<noteq> None
      then []
      else [\<lparr>diag_loc = d_loc def, diag_entity = JStr (d_name def),
             diag_message = ''Defined without @entity directive''\<rparr>])"

definition validateEntityID :: "gql_def \<Rightarrow> diagnostic list" where
  "validateEntityID def =
     (case find (\<lambda>field. f_name field = ''id'') (d_fields def) of
        None \<Rightarrow>
          [\<lparr>diag_loc = d_loc def, diag_entity = JStr (d_name def),
            diag_message = ''Missing field: id: ID!''\<rparr>]
      | Some idField \<Rightarrow>
          (if is_NonNullType (f_type idField) \<and>
              is_NamedType (ofType (f_type idField)) \<and>
              name_value (ofType (f_type idField)) = Inr ''ID''
           then []
           else [\<lparr>diag_loc = f_loc idField, diag_entity = JStr (d_name def),
                  diag_message = ''Field 'id': Entity IDs must be of type ID!''\<rparr>]))"

text \<open>
  The message of either branch reads \<^verbatim>\<open>field.type.type.name.value\<close>, which throws when
  the element of the list is not a named type. The first condition is the source's:
  it asks the one node \<^verbatim>\<open>field.type\<close> to be of kind NonNullType and of kind ListType.
\<close>

definition validateListFieldType :: "gql_def \<Rightarrow> gql_field \<Rightarrow> exn + diagnostic list" where
  "validateListFieldType def field =
     (if is_NonNullType (f_type field) \<and> is_ListType (f_type field) \<and>
         \<not> is_NonNullType (ofType (f_type field))
      then
        (case name_value (ofType (f_type field)) of
           Inl e \<Rightarrow> Inl e
         | Inr n \<Rightarrow>
             Inr [\<lparr>diag_loc = f_loc field, diag_entity = JStr (d_name def),
                   diag_message =
                     ''Field '' @ quoted (f_name field) @ '':\<newline>'' @
                     ''Field has type ['' @ n @ '']! but\<newline>'' @
                     ''must have type ['' @ n @ ''!]!\<newline>'' @
                     ''\<newline>'' @
                     ''Reason: Lists with null elements are not supported.''\<rparr>])
      else if is_ListType (f_type field) \<and> \<not> is_NonNullType (ofType (f_type field))
      then
        (case name_value (ofType (f_type field)) of
           Inl e \<Rightarrow> Inl e
         | Inr n \<Rightarrow>
             Inr [\<lparr>diag_loc = f_loc field, diag_entity = JStr (d_name def),
                   diag_message =
                     ''Field '' @ quoted (f_name field) @ '':\<newline>'' @
                     ''Field has type ['' @ n @ ''] but\<newline>'' @
                     ''must have type ['' @ n @ ''!]\<newline>'' @
                     ''\<newline>'' @
                     ''Reason: Lists with null elements are not supported.''\<rparr>])
      else Inr [])"

text \<open>The two local functions of \<^verbatim>\<open>unwrapType\<close>; each is only called on a node of its
  own kind.\<close>

fun innerTypeFromList :: "gtype \<Rightarrow> gtype"
  and innerTypeFromNonNull :: "gtype \<Rightarrow> gtype" where
  "innerTypeFromList (ListType (NonNullType t)) = innerTypeFromNonNull (NonNullType t)"
| "innerTypeFromList (ListType t) = t"
| "innerTypeFromNonNull (NonNullType (ListType t)) = innerTypeFromList (ListType t)"
| "innerTypeFromNonNull (NonNullType t) = t"

definition unwrapType :: "gtype \<Rightarrow> gtype" where
  "unwrapType ty =
     (if is_NonNullType ty then innerTypeFromNonNull ty
      else if is_ListType ty then innerTypeFromList ty
      else ty)"

section \<open>Gathering the names of the types\<close>

definition gatherLocalTypes :: "gql_def list \<Rightarrow> string list" where
  "gatherLocalTypes defs =
     map d_name
       (filter (\<lambda>def. d_kind def = ObjectTypeDefinition \<or>
                       d_kind def = EnumTypeDefinition \<or>
                       d_kind def = InterfaceTypeDefinition) defs)"

text \<open>The predicate of both filters of \<^verbatim>\<open>gatherImportedTypes\<close> on directives: an
  \<^verbatim>\<open>@import\<close> directive with an argument named \<^verbatim>\<open>types\<close>.\<close>

definition importWithTypes :: "gql_directive \<Rightarrow> bool" where
  "importWithTypes directive =
     (dir_name directive = ''import'' \<and>
      find (\<lambda>argument. arg_name argument = ''types'') (dir_arguments directive) \<noteq> None)"

text \<open>
  What one element of the list of \<^verbatim>\<open>types\<close> contributes: the string of a string literal;
  for an object with a string-valued field \<^verbatim>\<open>as\<close>, the \<^verbatim>\<open>.value\<close> of the value of its
  first field named \<^verbatim>\<open>as\<close> (which need not be the string-valued one); \<^verbatim>\<open>undefined\<close>
  otherwise. The second \<open>find\<close> succeeds whenever the first does, so its \<open>None\<close> case is
  never reached.
\<close>

definition importedTypeName :: "gvalue \<Rightarrow> jsval" where
  "importedTypeName ty =
     (case ty of
        StringValue s \<Rightarrow> JStr s
      | ObjectValue object_fields \<Rightarrow>
          (if find (\<lambda>(name, _, v). name = ''as'' \<and> is_StringValue v) object_fields \<noteq> None
           then (case find (\<lambda>(name, _, v). name = ''as'') object_fields of
                   Some (_, _, v) \<Rightarrow> value_attr v
                 | None \<Rightarrow> JUndefined)
           else JUndefined)
      | _ \<Rightarrow> JUndefined)"

text \<open>
  For one directive that passed the filter: the first argument that is named \<^verbatim>\<open>types\<close>
  and is a list, then the names of its elements. When there is no such argument
  \<open>find\<close> gives \<^verbatim>\<open>undefined\<close> and \<^verbatim>\<open>arg.value\<close> throws a TypeError.
\<close>

definition importedTypesOfDirective :: "gql_directive \<Rightarrow> exn + jsval list" where
  "importedTypesOfDirective imp =
     (case find (\<lambda>argument. arg_name argument = ''types'' \<and> is_ListValue (arg_value argument))
             (dir_arguments imp) of
        None \<Rightarrow> Inl TypeError
      | Some arg \<Rightarrow>
          (case arg_value arg of
             ListValue vs \<Rightarrow> Inr (map importedTypeName vs)
           | _ \<Rightarrow> Inl TypeError))"

definition gatherImportedTypes :: "gql_def list \<Rightarrow> exn + jsval list" where
  "gatherImportedTypes defs =
     (case map_exn
             (\<lambda>def. map_exn importedTypesOfDirective
                      (filter importWithTypes (d_directives def)))
             (filter (\<lambda>def. d_kind def = ObjectTypeDefinition \<and>
                             d_name def = RESERVED_TYPE \<and>
                             find importWithTypes (d_directives def) \<noteq> None) defs) of
        Inl e \<Rightarrow> Inl e
      | Inr types_args_of_defs \<Rightarrow>
          Inr (concat (map (\<lambda>types_args. concat (map (filter truthy) types_args))
                           types_args_of_defs)))"

definition entityTypeByName :: "gql_def list \<Rightarrow> string \<Rightarrow> gql_def option" where
  "entityTypeByName defs name =
     find (\<lambda>def. d_name def = name)
       (filter (\<lambda>def. find (\<lambda>directive. dir_name directive = ''entity'') (d_directives def) \<noteq> None)
          (filter (\<lambda>def. d_kind def = InterfaceTypeDefinition \<or>
                          d_kind def = ObjectTypeDefinition) defs))"

definition fieldTargetEntityName :: "gql_field \<Rightarrow> exn + string" where
  "fieldTargetEntityName field = name_value (unwrapType (f_type field))"

definition fieldTargetEntity :: "gql_def list \<Rightarrow> gql_field \<Rightarrow> exn + gql_def option" where
  "fieldTargetEntity defs field =
     (case fieldTargetEntityName field of
        Inl e \<Rightarrow> Inl e
      | Inr name \<Rightarrow> Inr (entityTypeByName defs name))"

section \<open>Checks of a field of an entity type\<close>

definition validateInnerFieldType :: "gql_def list \<Rightarrow> gql_def \<Rightarrow> gql_field \<Rightarrow> exn + diagnostic list" where
  "validateInnerFieldType defs def field =
     (case name_value (unwrapType (f_type field)) of
        Inl e \<Rightarrow> Inl e
      | Inr typeName \<Rightarrow>
          (case gatherImportedTypes defs of
             Inl e \<Rightarrow> Inl e
           | Inr imported \<Rightarrow>
               (if JStr typeName \<in> set (map JStr BUILTIN_SCALAR_TYPES @
                                         map JStr (gatherLocalTypes defs) @ imported)
                then Inr []
                else Inr [\<lparr>diag_loc = f_loc field, diag_entity = JStr (d_name def),
                           diag_message =
                             ''Field '' @ quoted (f_name field) @ '': '' @
                             ''Unknown type '' @ quoted typeName @ ''.'' @
                             (case typeSuggestion typeName of
                                Some suggestion \<Rightarrow> '' Did you mean '' @ quoted suggestion @ ''?''
                              | None \<Rightarrow> [])\<rparr>])))"

definition validateEntityFieldType :: "gql_def list \<Rightarrow> gql_def \<Rightarrow> gql_field \<Rightarrow> exn + diagnostic list" where
  "validateEntityFieldType defs def field =
     (case validateListFieldType def field of
        Inl e \<Rightarrow> Inl e
      | Inr errors1 \<Rightarrow>
          (case validateInnerFieldType defs def field of
             Inl e \<Rightarrow> Inl e
           | Inr errors2 \<Rightarrow> Inr (errors1 @ errors2)))"

definition validateEntityFieldArguments :: "gql_def list \<Rightarrow> gql_def \<Rightarrow> gql_field \<Rightarrow> diagnostic list" where
  "validateEntityFieldArguments defs def field =
     (if length (f_arguments field) > 0
      then [\<lparr>diag_loc = f_loc field, diag_entity = JStr (d_name def),
             diag_message =
               ''Field '' @ quoted (f_name field) @ '': '' @
               ''Field arguments are not supported.''\<rparr>]
      else [])"

definition entityFieldExists :: "gql_def \<Rightarrow> string \<Rightarrow> bool" where
  "entityFieldExists entityDef name =
     (find (\<lambda>field. f_name field = name) (d_fields entityDef) \<noteq> None)"

text \<open>
  Each check of \<^verbatim>\<open>validateDerivedFromDirective\<close> returns when it fails. The first one,
  \<^verbatim>\<open>arguments.length !== 1 || arguments[0].name.value !== 'field'\<close>, is the match on the
  list of arguments: any list but a singleton fails it, and so does a singleton of
  another name. In the last check \<open>the\<close> is only read when \<open>backRefEntity\<close> is found.
\<close>

definition validateDerivedFromDirective ::
  "gql_def list \<Rightarrow> gql_def \<Rightarrow> gql_field \<Rightarrow> gql_directive \<Rightarrow> exn + diagnostic list" where
  "validateDerivedFromDirective defs def field directive =
     (let noFieldArgument =
            Inr [\<lparr>diag_loc = dir_loc directive, diag_entity = JStr (d_name def),
                  diag_message =
                    ''Field '' @ quoted (f_name field) @ '': '' @
                    ''@derivedFrom directive must have a 'field' argument''\<rparr>]
      in case dir_arguments directive of
        [argument0] \<Rightarrow>
          (if arg_name argument0 \<noteq> ''field'' then noFieldArgument
           else case arg_value argument0 of
             StringValue fieldName \<Rightarrow>
               (case fieldTargetEntity defs field of
                  Inl e \<Rightarrow> Inl e
                | Inr None \<Rightarrow> Inr []
                | Inr (Some targetEntity) \<Rightarrow>
                    (case find (\<lambda>field. f_name field = fieldName) (d_fields targetEntity) of
                       None \<Rightarrow>
                         Inr [\<lparr>diag_loc = dir_loc directive, diag_entity = JStr (d_name def),
                               diag_message =
                                 ''Field '' @ quoted (f_name field) @ '': '' @
                                 ''@derivedFrom field '' @ quoted fieldName @ '' '' @
                                 ''does not exist on type '' @ quoted (d_name targetEntity)\<rparr>]
                     | Some derivedFromField \<Rightarrow>
                         (case name_value (unwrapType (f_type derivedFromField)) of
                            Inl e \<Rightarrow> Inl e
                          | Inr backrefTypeName \<Rightarrow>
                              (let backRefEntity = entityTypeByName defs backrefTypeName
                               in if backRefEntity = None \<or>
                                     d_name (the backRefEntity) \<noteq> d_name def
                                  then Inr [\<lparr>diag_loc = dir_loc directive,
                                             diag_entity = JStr (d_name def),
                                             diag_message =
                                               ''Field '' @ quoted (f_name field) @ '': '' @
                                               ''@derivedFrom field '' @ quoted fieldName @ '' '' @
                                               ''on type '' @ quoted (d_name targetEntity) @
                                               '' must have the type '' @
                                               quoted (d_name def) @ '', '' @
                                               quoted (d_name def @ ''!'') @ '' or '' @
                                               quoted (''['' @ d_name def @ ''!]!'')\<rparr>]
                                  else Inr []))))
           | _ \<Rightarrow>
               Inr [\<lparr>diag_loc = dir_loc directive, diag_entity = JStr (d_name def),
                     diag_message =
                       ''Field '' @ quoted (f_name field) @ '': '' @
                       ''Value of the @derivedFrom 'field' argument must be a string''\<rparr>])
      | _ \<Rightarrow> noFieldArgument)"

definition validateEntityFieldDirective ::
  "gql_def list \<Rightarrow> gql_def \<Rightarrow> gql_field \<Rightarrow> gql_directive \<Rightarrow> exn + diagnostic list" where
  "validateEntityFieldDirective defs def field directive =
     (if dir_name directive = ''derivedFrom''
      then validateDerivedFromDirective defs def field directive
      else Inr [])"

definition validateEntityFieldDirectives ::
  "gql_def list \<Rightarrow> gql_def \<Rightarrow> gql_field \<Rightarrow> exn + diagnostic list" where
  "validateEntityFieldDirectives defs def field =
     reduce_concat (validateEntityFieldDirective defs def field) [] (f_directives field)"

text \<open>One step of the \<^verbatim>\<open>reduce\<close> of \<^verbatim>\<open>validateEntityFields\<close>: the three checks of a
  field, evaluated and concatenated in the order of the source.\<close>

definition validateEntityField :: "gql_def list \<Rightarrow> gql_def \<Rightarrow> gql_field \<Rightarrow> exn + diagnostic list" where
  "validateEntityField defs def field =
     (case validateEntityFieldType defs def field of
        Inl e \<Rightarrow> Inl e
      | Inr errors1 \<Rightarrow>
          (case validateEntityFieldDirectives defs def field of
             Inl e \<Rightarrow> Inl e
           | Inr errors3 \<Rightarrow>
               Inr (errors1 @ validateEntityFieldArguments defs def field @ errors3)))"

definition validateEntityFields :: "gql_def list \<Rightarrow> gql_def \<Rightarrow> exn + diagnostic list" where
  "validateEntityFields defs def = reduce_concat (validateEntityField defs def) [] (d_fields def)"

definition validateNoImportDirective :: "gql_def \<Rightarrow> diagnostic list" where
  "validateNoImportDirective def =
     (if find (\<lambda>directive. dir_name directive = ''import'') (d_directives def) \<noteq> None
      then [\<lparr>diag_loc = d_name_loc def, diag_entity = JStr (d_name def),
             diag_message =
               ''@import directive only allowed on '' @ quoted RESERVED_TYPE @ '' type''\<rparr>]
      else [])"

section \<open>Checks of the reserved type and of its import directives\<close>

text \<open>\<^verbatim>\<open>importDirectiveTypeValidators.ObjectValue\<close>: the body of the table's entry for an
  object, given the fields of the object.\<close>

definition validateImportDirectiveObjectType ::
  "gql_def \<Rightarrow> gql_directive \<Rightarrow> (string \<times> location \<times> gvalue) list \<Rightarrow> diagnostic list" where
  \<open>validateImportDirectiveObjectType def directive object_fields =
     (if length object_fields \<noteq> 2
      then [\<lparr>diag_loc = dir_name_loc directive, diag_entity = JStr (d_name def),
             diag_message = ''Import must be one of "Name" or { name: "Name", as: "Alias" }''\<rparr>]
      else concat (map (\<lambda>(name, _, v).
             if name \<notin> set [''name'', ''as'']
             then [\<lparr>diag_loc = dir_name_loc directive, diag_entity = JStr (d_name def),
                    diag_message =
                      ''@import field '' @ quoted name @
                      '' invalid, may only be one of: [name, as]''\<rparr>]
             else if \<not> is_StringValue v
             then [\<lparr>diag_loc = dir_name_loc directive, diag_entity = JStr (d_name def),
                    diag_message = ''@import fields [name, as] must be strings''\<rparr>]
             else []) object_fields))\<close>

text \<open>The table \<^verbatim>\<open>importDirectiveTypeValidators\<close> has an entry for a string and one for an
  object; every other kind of literal takes the other branch.\<close>

definition validateImportDirectiveType :: "gql_def \<Rightarrow> gql_directive \<Rightarrow> gvalue \<Rightarrow> diagnostic list" where
  \<open>validateImportDirectiveType def directive ty =
     (case ty of
        StringValue _ \<Rightarrow> []
      | ObjectValue object_fields \<Rightarrow> validateImportDirectiveObjectType def directive object_fields
      | _ \<Rightarrow>
          [\<lparr>diag_loc = dir_name_loc directive, diag_entity = JStr (d_name def),
            diag_message = ''Import must be one of "Name" or { name: "Name", as: "Alias" }''\<rparr>])\<close>

definition validateImportDirectiveArgumentTypes ::
  "gql_def \<Rightarrow> gql_directive \<Rightarrow> gql_argument \<Rightarrow> diagnostic list" where
  "validateImportDirectiveArgumentTypes def directive argument =
     (case arg_value argument of
        ListValue vs \<Rightarrow> concat (map (validateImportDirectiveType def directive) vs)
      | _ \<Rightarrow>
          [\<lparr>diag_loc = dir_name_loc directive, diag_entity = JStr (d_name def),
            diag_message = ''@import argument 'types' must be an list''\<rparr>])"

definition validateImportDirectiveArgumentFrom ::
  "gql_def \<Rightarrow> gql_directive \<Rightarrow> gql_argument \<Rightarrow> diagnostic list" where
  \<open>validateImportDirectiveArgumentFrom def directive argument =
     (case arg_value argument of
        ObjectValue object_fields \<Rightarrow>
          (if length object_fields \<noteq> 1
           then [\<lparr>diag_loc = dir_name_loc directive, diag_entity = JStr (d_name def),
                  diag_message = ''@import argument 'from' must have an 'id' or 'name' field''\<rparr>]
           else concat (map (\<lambda>(name, name_loc, v).
                  if name \<notin> set [''name'', ''id'']
                  then [\<lparr>diag_loc = name_loc, diag_entity = JStr (d_name def),
                         diag_message =
                           ''@import argument 'from' must be one of { name: "Name" } or { id: "ID" }''\<rparr>]
                  else if \<not> is_StringValue v
                  then [\<lparr>diag_loc = name_loc, diag_entity = JStr (d_name def),
                         diag_message =
                           ''@import argument 'from' must be one of { name: "Name" } or { id: "ID" } with string values''\<rparr>]
                  else []) object_fields))
      | _ \<Rightarrow>
          [\<lparr>diag_loc = dir_name_loc directive, diag_entity = JStr (d_name def),
            diag_message = ''@import argument 'from' must be an object''\<rparr>])\<close>

definition validateImportDirectiveTypes :: "gql_def \<Rightarrow> gql_directive \<Rightarrow> diagnostic list" where
  "validateImportDirectiveTypes def directive =
     (case find (\<lambda>argument. arg_name argument = ''types'') (dir_arguments directive) of
        Some types_arg \<Rightarrow> validateImportDirectiveArgumentTypes def directive types_arg
      | None \<Rightarrow>
          [\<lparr>diag_loc = dir_name_loc directive, diag_entity = JStr (d_name def),
            diag_message = ''@import argument 'types' must be specified''\<rparr>])"

definition validateImportDirectiveFrom :: "gql_def \<Rightarrow> gql_directive \<Rightarrow> diagnostic list" where
  "validateImportDirectiveFrom def directive =
     (case find (\<lambda>argument. arg_name argument = ''from'') (dir_arguments directive) of
        Some from_arg \<Rightarrow> validateImportDirectiveArgumentFrom def directive from_arg
      | None \<Rightarrow>
          [\<lparr>diag_loc = dir_name_loc directive, diag_entity = JStr (d_name def),
            diag_message = ''@import argument 'from' must be specified''\<rparr>])"

text \<open>
  \<^verbatim>\<open>validateImportDirectiveName\<close> has the one parameter \<^verbatim>\<open>directive\<close>. The diagnostic it
  builds for another name than \<^verbatim>\<open>import\<close> reads \<^verbatim>\<open>def.name.value\<close>, and no \<^verbatim>\<open>def\<close> is
  declared in the function, in the module or among the globals: evaluating the
  identifier throws a ReferenceError.
\<close>

definition validateImportDirectiveName :: "gql_directive \<Rightarrow> exn + diagnostic list" where
  "validateImportDirectiveName directive =
     (if dir_name directive \<noteq> ''import'' then Inl ReferenceError else Inr [])"

definition validateImportDirective :: "gql_def \<Rightarrow> gql_directive \<Rightarrow> exn + diagnostic list" where
  "validateImportDirective def directive =
     (case validateImportDirectiveName directive of
        Inl e \<Rightarrow> Inl e
      | Inr errors1 \<Rightarrow>
          Inr (errors1 @ validateImportDirectiveTypes def directive @
               validateImportDirectiveFrom def directive))"

definition validateSubgraphSchemaDirectives :: "gql_def \<Rightarrow> exn + diagnostic list" where
  "validateSubgraphSchemaDirectives def =
     reduce_concat (validateImportDirective def) [] (d_directives def)"

definition validateTypeHasNoFields :: "gql_def \<Rightarrow> diagnostic list" where
  "validateTypeHasNoFields def =
     (if length (d_fields def) \<noteq> 0
      then [\<lparr>diag_loc = d_name_loc def, diag_entity = JStr (d_name def),
             diag_message = d_name def @ '' type is not allowed any fields by convention''\<rparr>]
      else [])"

definition validateAtLeastOneExtensionField :: "gql_def \<Rightarrow> diagnostic list" where
  "validateAtLeastOneExtensionField def = []"

section \<open>The checks of a definition and of the schema\<close>

text \<open>The table \<^verbatim>\<open>typeDefinitionValidators\<close> has an entry for an object type and one for
  an extension of an object type; a definition of another kind has no diagnostic.\<close>

definition validateTypeDefinition :: "gql_def list \<Rightarrow> gql_def \<Rightarrow> exn + diagnostic list" where
  "validateTypeDefinition defs def =
     (case d_kind def of
        ObjectTypeDefinition \<Rightarrow>
          (if d_name def = RESERVED_TYPE
           then (case validateSubgraphSchemaDirectives def of
                   Inl e \<Rightarrow> Inl e
                 | Inr errors1 \<Rightarrow> Inr (errors1 @ validateTypeHasNoFields def))
           else (case validateEntityFields defs def of
                   Inl e \<Rightarrow> Inl e
                 | Inr errors3 \<Rightarrow>
                     Inr (validateEntityDirective def @ validateEntityID def @ errors3 @
                          validateNoImportDirective def)))
      | ObjectTypeExtension \<Rightarrow> Inr (validateAtLeastOneExtensionField def)
      | _ \<Rightarrow> Inr [])"

definition validateTypeDefinitions :: "gql_def list \<Rightarrow> exn + diagnostic list" where
  "validateTypeDefinitions defs = reduce_concat (validateTypeDefinition defs) [] defs"

text \<open>The three variables that the \<^verbatim>\<open>reduce\<close> of \<^verbatim>\<open>validateNamingCollisionsInTypes\<close>
  updates, and one step of it.\<close>

record collisions =
  seen :: "jsval set"
  conflicting :: "jsval set"
  errors :: "diagnostic list"

definition collision_step :: "collisions \<Rightarrow> jsval \<Rightarrow> collisions" where
  "collision_step st ty =
     (if ty \<in> seen st \<and> ty \<notin> conflicting st
      then st\<lparr>errors := errors st @
                  [\<lparr>diag_loc = \<lparr>loc_start = 1, loc_end = 1\<rparr>, diag_entity = ty,
                    diag_message =
                      ''Type '' @ quoted (to_string ty) @ '' is defined more than once''\<rparr>],
              conflicting := insert ty (conflicting st)\<rparr>
      else st\<lparr>seen := insert ty (seen st)\<rparr>)"

definition validateNamingCollisionsInTypes :: "jsval list \<Rightarrow> diagnostic list" where
  "validateNamingCollisionsInTypes types =
     errors (foldl collision_step \<lparr>seen = {}, conflicting = {}, errors = []\<rparr> types)"

definition validateNamingCollisions :: "string list \<Rightarrow> jsval list \<Rightarrow> diagnostic list" where
  "validateNamingCollisions local imported =
     validateNamingCollisionsInTypes (map JStr local @ imported)"

text \<open>\<^verbatim>\<open>validateSchema\<close> after the schema is loaded and parsed: the argument is
  \<^verbatim>\<open>schema.definitions\<close>.\<close>

definition validateSchema :: "gql_def list \<Rightarrow> exn + diagnostic list" where
  "validateSchema definitions =
     (case validateTypeDefinitions definitions of
        Inl e \<Rightarrow> Inl e
      | Inr errors1 \<Rightarrow>
          (case gatherImportedTypes definitions of
             Inl e \<Rightarrow> Inl e
           | Inr imported \<Rightarrow>
               Inr (errors1 @ validateNamingCollisions (gatherLocalTypes definitions) imported)))"

section \<open>Type expressions built by wrapping a named type\<close>

text \<open>A type expression is a named type inside a sequence of wrappers, the outermost
  first. The sequence alternates strictly when no two neighbours are the same wrapper.\<close>

datatype wrapper = ListWrapper | NonNullWrapper

fun wrap :: "wrapper \<Rightarrow> gtype \<Rightarrow> gtype" where
  "wrap ListWrapper t = ListType t"
| "wrap NonNullWrapper t = NonNullType t"

fun strictly_alternating :: "wrapper list \<Rightarrow> bool" where
  "strictly_alternating [] = True"
| "strictly_alternating [w] = True"
| "strictly_alternating (w # w' # ws) = (w \<noteq> w' \<and> strictly_alternating (w' # ws))"

section \<open>An example schema\<close>

text \<open>
  The type \<^verbatim>\<open>User\<close> carries \<^verbatim>\<open>@entity\<close> and has the fields
  \<^verbatim>\<open>tokens: [Token!]! @derivedFrom(field: "owner")\<close>,
  \<^verbatim>\<open>created: [Token!]! @derivedFrom(field: "creator")\<close> and
  \<^verbatim>\<open>things: [Thing!]! @derivedFrom(field: "owner")\<close>; the type \<^verbatim>\<open>Token\<close> carries \<^verbatim>\<open>@entity\<close>
  and has the one field \<^verbatim>\<open>creator: String\<close>. So \<^verbatim>\<open>Token\<close> has no field \<^verbatim>\<open>owner\<close>, its field
  \<^verbatim>\<open>creator\<close> does not refer back to \<^verbatim>\<open>User\<close>, and there is no type \<^verbatim>\<open>Thing\<close>.
\<close>

definition example_derivedFrom :: "nat \<Rightarrow> string \<Rightarrow> gql_directive" where
  "example_derivedFrom pos f =
     \<lparr>dir_name = ''derivedFrom'', dir_name_loc = \<lparr>loc_start = pos + 1, loc_end = pos + 12\<rparr>,
      dir_loc = \<lparr>loc_start = pos, loc_end = pos + 22 + length f\<rparr>,
      dir_arguments = [\<lparr>arg_name = ''field'', arg_value = StringValue f\<rparr>]\<rparr>"

definition example_tokens :: gql_field where
  "example_tokens =
     \<lparr>f_name = ''tokens'', f_loc = \<lparr>loc_start = 20, loc_end = 66\<rparr>,
      f_type = NonNullType (ListType (NonNullType (NamedType ''Token''))),
      f_arguments = [], f_directives = [example_derivedFrom 39 ''owner'']\<rparr>"

definition example_created :: gql_field where
  "example_created =
     \<lparr>f_name = ''created'', f_loc = \<lparr>loc_start = 67, loc_end = 116\<rparr>,
      f_type = NonNullType (ListType (NonNullType (NamedType ''Token''))),
      f_arguments = [], f_directives = [example_derivedFrom 87 ''creator'']\<rparr>"

definition example_things :: gql_field where
  "example_things =
     \<lparr>f_name = ''things'', f_loc = \<lparr>loc_start = 117, loc_end = 163\<rparr>,
      f_type = NonNullType (ListType (NonNullType (NamedType ''Thing''))),
      f_arguments = [], f_directives = [example_derivedFrom 136 ''owner'']\<rparr>"

definition example_entity :: "nat \<Rightarrow> gql_directive" where
  "example_entity pos =
     \<lparr>dir_name = ''entity'', dir_name_loc = \<lparr>loc_start = pos + 1, loc_end = pos + 7\<rparr>,
      dir_loc = \<lparr>loc_start = pos, loc_end = pos + 7\<rparr>, dir_arguments = []\<rparr>"

definition example_User :: gql_def where
  "example_User =
     \<lparr>d_kind = ObjectTypeDefinition, d_name = ''User'',
      d_name_loc = \<lparr>loc_start = 5, loc_end = 9\<rparr>, d_loc = \<lparr>loc_start = 0, loc_end = 165\<rparr>,
      d_fields = [example_tokens, example_created, example_things],
      d_directives = [example_entity 10]\<rparr>"

definition example_Token :: gql_def where
  "example_Token =
     \<lparr>d_kind = ObjectTypeDefinition, d_name = ''Token'',
      d_name_loc = \<lparr>loc_start = 171, loc_end = 176\<rparr>,
      d_loc = \<lparr>loc_start = 166, loc_end = 203\<rparr>,
      d_fields =
        [\<lparr>f_name = ''creator'', f_loc = \<lparr>loc_start = 187, loc_end = 202\<rparr>,
          f_type = NamedType ''String'', f_arguments = [], f_directives = []\<rparr>],
      d_directives = [example_entity 177]\<rparr>"

section \<open>Unwrapping a type expression\<close>

lemma inner_type_alternating:
  "strictly_alternating (w # ws) \<Longrightarrow>
     (w = ListWrapper \<longrightarrow> innerTypeFromList (foldr wrap (w # ws) (NamedType n)) = NamedType n) \<and>
     (w = NonNullWrapper \<longrightarrow> innerTypeFromNonNull (foldr wrap (w # ws) (NamedType n)) = NamedType n)"
proof (induction ws arbitrary: w)
  case Nil
  show ?case by (cases w) simp_all
next
  case (Cons w' ws)
  from Cons.prems have alt: "w \<noteq> w'" "strictly_alternating (w' # ws)" by simp_all
  from Cons.IH [OF alt(2)] alt(1) show ?case
    by (cases w; cases w') simp_all
qed

text \<open>
  Claim C9. For a type expression built from a named type by any number of strictly
  alternating List and NonNull wrappers, \<open>unwrapType\<close> returns the named type at its
  core.
\<close>

theorem unwrapType_alternating:
  "strictly_alternating ws \<Longrightarrow> unwrapType (foldr wrap ws (NamedType n)) = NamedType n"
proof (cases ws)
  case Nil
  then show ?thesis by (simp add: unwrapType_def)
next
  case (Cons w ws')
  assume "strictly_alternating ws"
  with Cons inner_type_alternating [of w ws' n] show ?thesis
    by (cases w) (simp_all add: unwrapType_def)
qed

theorem unwrapType_alternating_witness:
  "strictly_alternating [NonNullWrapper, ListWrapper, NonNullWrapper] \<and>
   unwrapType (NonNullType (ListType (NonNullType (NamedType ''Token'')))) = NamedType ''Token''"
proof -
  have h: "strictly_alternating [NonNullWrapper, ListWrapper, NonNullWrapper]" by simp
  from unwrapType_alternating [OF h, of "''Token''"] h show ?thesis by simp
qed

lemma unwrapType_nested_list: "unwrapType (ListType (ListType t)) = ListType t"
  by (cases t) (simp_all add: unwrapType_def)

lemma reduce_concat_throws:
  "x \<in> set xs \<Longrightarrow> f x = Inl e \<Longrightarrow> \<exists>e'. reduce_concat f acc xs = Inl e'"
  by (induction xs arbitrary: acc) (auto split: sum.splits)

lemma validateInnerFieldType_nested_list:
  "f_type field = ListType (ListType t) \<Longrightarrow> validateInnerFieldType defs def field = Inl TypeError"
  by (simp add: validateInnerFieldType_def unwrapType_nested_list)

lemma validateEntityField_nested_list:
  assumes "f_type field = ListType (ListType t)"
  shows "\<exists>e. validateEntityField defs def field = Inl e"
proof (cases "validateListFieldType def field")
  case (Inl e)
  then show ?thesis by (simp add: validateEntityField_def validateEntityFieldType_def)
next
  case (Inr ds)
  with validateInnerFieldType_nested_list [OF assms, of defs "def"] show ?thesis
    by (simp add: validateEntityField_def validateEntityFieldType_def)
qed

text \<open>
  Claim C10. There is a field type that the grammar allows, a list whose element is a
  list that is not wrapped in NonNull (\<^verbatim>\<open>[[T]]\<close>, and any \<open>[[t]]\<close>), for which \<open>unwrapType\<close>
  returns the inner List node and not a named type. The check of the inner type then
  reads the name of that node, which a List node does not have, and throws; so does the
  validation of an entity type that has such a field, and of a schema with such an
  entity type. (On \<^verbatim>\<open>[[T]]\<close> itself the check of the list shape, which runs first, reads
  the same absent name.)
\<close>

theorem nested_list_field_throws:
  assumes "f_type field = ListType (ListType t)"
  shows "unwrapType (f_type field) = ListType t \<and>
         validateInnerFieldType defs def field = Inl TypeError \<and>
         (d_kind def = ObjectTypeDefinition \<and> d_name def \<noteq> RESERVED_TYPE \<and>
          field \<in> set (d_fields def) \<longrightarrow>
            (\<exists>e. validateTypeDefinition defs def = Inl e) \<and>
            (def \<in> set defs \<longrightarrow> (\<exists>e. validateSchema defs = Inl e)))"
proof -
  have 1: "unwrapType (f_type field) = ListType t"
    using assms by (simp add: unwrapType_nested_list)
  have 2: "validateInnerFieldType defs def field = Inl TypeError"
    using assms by (rule validateInnerFieldType_nested_list)
  have 3: "(\<exists>e. validateTypeDefinition defs def = Inl e) \<and>
           (def \<in> set defs \<longrightarrow> (\<exists>e. validateSchema defs = Inl e))"
    if k: "d_kind def = ObjectTypeDefinition" and n: "d_name def \<noteq> RESERVED_TYPE"
      and m: "field \<in> set (d_fields def)"
  proof -
    obtain e where e: "validateEntityField defs def field = Inl e"
      using validateEntityField_nested_list [OF assms] by blast
    obtain e' where "validateEntityFields defs def = Inl e'"
      unfolding validateEntityFields_def
      using reduce_concat_throws [where f = "validateEntityField defs def", OF m e] by blast
    with k n have d: "validateTypeDefinition defs def = Inl e'"
      by (simp add: validateTypeDefinition_def)
    have "\<exists>e. validateSchema defs = Inl e" if s: "def \<in> set defs"
    proof -
      obtain e'' where "validateTypeDefinitions defs = Inl e''"
        unfolding validateTypeDefinitions_def
        using reduce_concat_throws [where f = "validateTypeDefinition defs", OF s d] by blast
      then show ?thesis by (simp add: validateSchema_def)
    qed
    with d show ?thesis by simp
  qed
  from 1 2 3 show ?thesis by simp
qed

text \<open>The schema \<^verbatim>\<open>type Token @entity { id: ID!  tags: [[String]] }\<close>.\<close>

theorem nested_list_field_throws_witness:
  "\<exists>e. validateSchema
     [\<lparr>d_kind = ObjectTypeDefinition, d_name = ''Token'',
       d_name_loc = \<lparr>loc_start = 5, loc_end = 10\<rparr>, d_loc = \<lparr>loc_start = 0, loc_end = 50\<rparr>,
       d_fields =
         [\<lparr>f_name = ''id'', f_loc = \<lparr>loc_start = 21, loc_end = 28\<rparr>,
           f_type = NonNullType (NamedType ''ID''), f_arguments = [], f_directives = []\<rparr>,
          \<lparr>f_name = ''tags'', f_loc = \<lparr>loc_start = 31, loc_end = 47\<rparr>,
           f_type = ListType (ListType (NamedType ''String'')), f_arguments = [],
           f_directives = []\<rparr>],
       d_directives =
         [\<lparr>dir_name = ''entity'', dir_name_loc = \<lparr>loc_start = 12, loc_end = 18\<rparr>,
           dir_loc = \<lparr>loc_start = 11, loc_end = 18\<rparr>, dir_arguments = []\<rparr>]\<rparr>] = Inl e"
  using nested_list_field_throws
    [of "\<lparr>f_name = ''tags'', f_loc = \<lparr>loc_start = 31, loc_end = 47\<rparr>,
           f_type = ListType (ListType (NamedType ''String'')), f_arguments = [],
           f_directives = []\<rparr>"
        "NamedType ''String''"
        "[\<lparr>d_kind = ObjectTypeDefinition, d_name = ''Token'',
       d_name_loc = \<lparr>loc_start = 5, loc_end = 10\<rparr>, d_loc = \<lparr>loc_start = 0, loc_end = 50\<rparr>,
       d_fields =
         [\<lparr>f_name = ''id'', f_loc = \<lparr>loc_start = 21, loc_end = 28\<rparr>,
           f_type = NonNullType (NamedType ''ID''), f_arguments = [], f_directives = []\<rparr>,
          \<lparr>f_name = ''tags'', f_loc = \<lparr>loc_start = 31, loc_end = 47\<rparr>,
           f_type = ListType (ListType (NamedType ''String'')), f_arguments = [],
           f_directives = []\<rparr>],
       d_directives =
         [\<lparr>dir_name = ''entity'', dir_name_loc = \<lparr>loc_start = 12, loc_end = 18\<rparr>,
           dir_loc = \<lparr>loc_start = 11, loc_end = 18\<rparr>, dir_arguments = []\<rparr>]\<rparr>]"
        "\<lparr>d_kind = ObjectTypeDefinition, d_name = ''Token'',
       d_name_loc = \<lparr>loc_start = 5, loc_end = 10\<rparr>, d_loc = \<lparr>loc_start = 0, loc_end = 50\<rparr>,
       d_fields =
         [\<lparr>f_name = ''id'', f_loc = \<lparr>loc_start = 21, loc_end = 28\<rparr>,
           f_type = NonNullType (NamedType ''ID''), f_arguments = [], f_directives = []\<rparr>,
          \<lparr>f_name = ''tags'', f_loc = \<lparr>loc_start = 31, loc_end = 47\<rparr>,
           f_type = ListType (ListType (NamedType ''String'')), f_arguments = [],
           f_directives = []\<rparr>],
       d_directives =
         [\<lparr>dir_name = ''entity'', dir_name_loc = \<lparr>loc_start = 12, loc_end = 18\<rparr>,
           dir_loc = \<lparr>loc_start = 11, loc_end = 18\<rparr>, dir_arguments = []\<rparr>]\<rparr>"]
  by (simp add: RESERVED_TYPE_def)

section \<open>Inputs on which the validator departs from its description\<close>

text \<open>
  Claim C1. On the type \<^verbatim>\<open>_Schema_\<close>, a directive of another name than \<^verbatim>\<open>import\<close> is to
  give a diagnostic (only \<^verbatim>\<open>@import\<close> is allowed on the reserved type), returned by
  \<open>validateSchema\<close> without an exception. On the schema \<^verbatim>\<open>type _Schema_ @foo\<close> the
  validator throws a ReferenceError instead: the diagnostic reads \<^verbatim>\<open>def\<close>, which
  \<^verbatim>\<open>validateImportDirectiveName\<close> does not have.
\<close>

theorem reserved_type_other_directive_throws:
  "validateSchema
     [\<lparr>d_kind = ObjectTypeDefinition, d_name = ''_Schema_'',
       d_name_loc = \<lparr>loc_start = 5, loc_end = 13\<rparr>, d_loc = \<lparr>loc_start = 0, loc_end = 18\<rparr>,
       d_fields = [],
       d_directives =
         [\<lparr>dir_name = ''foo'', dir_name_loc = \<lparr>loc_start = 15, loc_end = 18\<rparr>,
           dir_loc = \<lparr>loc_start = 14, loc_end = 18\<rparr>, dir_arguments = []\<rparr>]\<rparr>]
   = Inl ReferenceError"
  by code_simp

text \<open>
  Claim C2. A field of an entity type of type \<^verbatim>\<open>[T]!\<close> is to give exactly one diagnostic,
  which recommends \<^verbatim>\<open>[T!]!\<close>. On the field \<^verbatim>\<open>tags: [String]!\<close> of
  \<^verbatim>\<open>type Token @entity { id: ID!  tags: [String]! }\<close> the check of the list shape gives no
  diagnostic, and neither does the validation of the whole schema: the branch for
  \<^verbatim>\<open>[T]!\<close> asks the node \<^verbatim>\<open>field.type\<close> to be of two kinds at once.
\<close>

theorem non_null_list_of_nullable_not_reported:
  "validateListFieldType
     \<lparr>d_kind = ObjectTypeDefinition, d_name = ''Token'',
      d_name_loc = \<lparr>loc_start = 5, loc_end = 10\<rparr>, d_loc = \<lparr>loc_start = 0, loc_end = 49\<rparr>,
      d_fields =
        [\<lparr>f_name = ''id'', f_loc = \<lparr>loc_start = 21, loc_end = 28\<rparr>,
          f_type = NonNullType (NamedType ''ID''), f_arguments = [], f_directives = []\<rparr>,
         \<lparr>f_name = ''tags'', f_loc = \<lparr>loc_start = 31, loc_end = 46\<rparr>,
          f_type = NonNullType (ListType (NamedType ''String'')), f_arguments = [],
          f_directives = []\<rparr>],
      d_directives =
        [\<lparr>dir_name = ''entity'', dir_name_loc = \<lparr>loc_start = 12, loc_end = 18\<rparr>,
          dir_loc = \<lparr>loc_start = 11, loc_end = 18\<rparr>, dir_arguments = []\<rparr>]\<rparr>
     \<lparr>f_name = ''tags'', f_loc = \<lparr>loc_start = 31, loc_end = 46\<rparr>,
      f_type = NonNullType (ListType (NamedType ''String'')), f_arguments = [],
      f_directives = []\<rparr>
   = Inr [] \<and>
   validateSchema
     [\<lparr>d_kind = ObjectTypeDefinition, d_name = ''Token'',
       d_name_loc = \<lparr>loc_start = 5, loc_end = 10\<rparr>, d_loc = \<lparr>loc_start = 0, loc_end = 49\<rparr>,
       d_fields =
         [\<lparr>f_name = ''id'', f_loc = \<lparr>loc_start = 21, loc_end = 28\<rparr>,
           f_type = NonNullType (NamedType ''ID''), f_arguments = [], f_directives = []\<rparr>,
          \<lparr>f_name = ''tags'', f_loc = \<lparr>loc_start = 31, loc_end = 46\<rparr>,
           f_type = NonNullType (ListType (NamedType ''String'')), f_arguments = [],
           f_directives = []\<rparr>],
       d_directives =
         [\<lparr>dir_name = ''entity'', dir_name_loc = \<lparr>loc_start = 12, loc_end = 18\<rparr>,
           dir_loc = \<lparr>loc_start = 11, loc_end = 18\<rparr>, dir_arguments = []\<rparr>]\<rparr>]
   = Inr []"
  by code_simp

text \<open>
  Claim C3. When an \<^verbatim>\<open>@import\<close> directive on \<^verbatim>\<open>_Schema_\<close> has an argument \<^verbatim>\<open>types\<close> that is
  not a list, \<open>validateSchema\<close> is to return the diagnostic that \<^verbatim>\<open>types\<close> must be a list
  with the rest of the diagnostics. On
  \<^verbatim>\<open>type _Schema_ @import(types: "A", from: { name: "x" })\<close> the checks of the
  definitions do give that diagnostic, but \<open>validateSchema\<close> then gathers the imported
  types, and \<open>gatherImportedTypes\<close> throws a TypeError on the argument \<^verbatim>\<open>types\<close> that is
  not a list.
\<close>

theorem import_types_not_a_list_throws:
  \<open>validateTypeDefinitions
     [\<lparr>d_kind = ObjectTypeDefinition, d_name = ''_Schema_'',
       d_name_loc = \<lparr>loc_start = 5, loc_end = 13\<rparr>, d_loc = \<lparr>loc_start = 0, loc_end = 55\<rparr>,
       d_fields = [],
       d_directives =
         [\<lparr>dir_name = ''import'', dir_name_loc = \<lparr>loc_start = 15, loc_end = 21\<rparr>,
           dir_loc = \<lparr>loc_start = 14, loc_end = 55\<rparr>,
           dir_arguments =
             [\<lparr>arg_name = ''types'', arg_value = StringValue ''A''\<rparr>,
              \<lparr>arg_name = ''from'',
               arg_value = ObjectValue
                 [(''name'', \<lparr>loc_start = 41, loc_end = 45\<rparr>, StringValue ''x'')]\<rparr>]\<rparr>]\<rparr>]
   = Inr [\<lparr>diag_loc = \<lparr>loc_start = 15, loc_end = 21\<rparr>, diag_entity = JStr ''_Schema_'',
           diag_message = ''@import argument 'types' must be an list''\<rparr>] \<and>
   validateSchema
     [\<lparr>d_kind = ObjectTypeDefinition, d_name = ''_Schema_'',
       d_name_loc = \<lparr>loc_start = 5, loc_end = 13\<rparr>, d_loc = \<lparr>loc_start = 0, loc_end = 55\<rparr>,
       d_fields = [],
       d_directives =
         [\<lparr>dir_name = ''import'', dir_name_loc = \<lparr>loc_start = 15, loc_end = 21\<rparr>,
           dir_loc = \<lparr>loc_start = 14, loc_end = 55\<rparr>,
           dir_arguments =
             [\<lparr>arg_name = ''types'', arg_value = StringValue ''A''\<rparr>,
              \<lparr>arg_name = ''from'',
               arg_value = ObjectValue
                 [(''name'', \<lparr>loc_start = 41, loc_end = 45\<rparr>, StringValue ''x'')]\<rparr>]\<rparr>]\<rparr>]
   = Inl TypeError\<close>
  by code_simp

section \<open>The entity ID, the directive \<^verbatim>\<open>@derivedFrom\<close> and the inner type of a field\<close>

lemma id_type_iff:
  "(is_NonNullType t \<and> is_NamedType (ofType t) \<and> name_value (ofType t) = Inr ''ID'')
     = (t = NonNullType (NamedType ''ID''))"
proof (cases t)
  case (NonNullType u)
  then show ?thesis by (cases u) auto
qed simp_all

text \<open>
  Claim C7. An object type definition that is not named \<^verbatim>\<open>_Schema_\<close> goes through the
  checks of an entity type, \<open>validateEntityID\<close> among them. With no field named \<^verbatim>\<open>id\<close>
  that check gives exactly one diagnostic, for the missing field. With a field \<^verbatim>\<open>id\<close> (the
  first of that name) whose type is anything but \<^verbatim>\<open>ID!\<close>, the non-null named type \<^verbatim>\<open>ID\<close>,
  it gives exactly one diagnostic, that entity IDs must be of type \<^verbatim>\<open>ID!\<close>. With a field
  \<^verbatim>\<open>id\<close> of type \<^verbatim>\<open>ID!\<close> it gives none.
\<close>

theorem entity_id_check:
  assumes "d_kind def = ObjectTypeDefinition" and "d_name def \<noteq> RESERVED_TYPE"
  shows "validateTypeDefinition defs def =
           (case validateEntityFields defs def of
              Inl e \<Rightarrow> Inl e
            | Inr errors3 \<Rightarrow>
                Inr (validateEntityDirective def @ validateEntityID def @ errors3 @
                     validateNoImportDirective def)) \<and>
         (find (\<lambda>field. f_name field = ''id'') (d_fields def) = None \<longrightarrow>
            validateEntityID def =
              [\<lparr>diag_loc = d_loc def, diag_entity = JStr (d_name def),
                diag_message = ''Missing field: id: ID!''\<rparr>]) \<and>
         (\<forall>idField. find (\<lambda>field. f_name field = ''id'') (d_fields def) = Some idField \<and>
                     f_type idField \<noteq> NonNullType (NamedType ''ID'') \<longrightarrow>
            validateEntityID def =
              [\<lparr>diag_loc = f_loc idField, diag_entity = JStr (d_name def),
                diag_message = ''Field 'id': Entity IDs must be of type ID!''\<rparr>]) \<and>
         (\<forall>idField. find (\<lambda>field. f_name field = ''id'') (d_fields def) = Some idField \<and>
                     f_type idField = NonNullType (NamedType ''ID'') \<longrightarrow>
            validateEntityID def = [])"
proof -
  have 1: "validateTypeDefinition defs def =
           (case validateEntityFields defs def of
              Inl e \<Rightarrow> Inl e
            | Inr errors3 \<Rightarrow>
                Inr (validateEntityDirective def @ validateEntityID def @ errors3 @
                     validateNoImportDirective def))"
    using assms by (simp add: validateTypeDefinition_def)
  have 2: "validateEntityID def =
              [\<lparr>diag_loc = d_loc def, diag_entity = JStr (d_name def),
                diag_message = ''Missing field: id: ID!''\<rparr>]"
    if "find (\<lambda>field. f_name field = ''id'') (d_fields def) = None"
    using that by (simp add: validateEntityID_def)
  have 3: "validateEntityID def =
              [\<lparr>diag_loc = f_loc idField, diag_entity = JStr (d_name def),
                diag_message = ''Field 'id': Entity IDs must be of type ID!''\<rparr>]"
    if "find (\<lambda>field. f_name field = ''id'') (d_fields def) = Some idField"
      and "f_type idField \<noteq> NonNullType (NamedType ''ID'')" for idField
    using that by (simp add: validateEntityID_def id_type_iff)
  have 4: "validateEntityID def = []"
    if "find (\<lambda>field. f_name field = ''id'') (d_fields def) = Some idField"
      and "f_type idField = NonNullType (NamedType ''ID'')" for idField
    using that by (simp add: validateEntityID_def)
  from 1 2 3 4 show ?thesis by blast
qed


theorem entity_id_check_witness:
  "validateEntityID
     \<lparr>d_kind = ObjectTypeDefinition, d_name = ''Token'',
      d_name_loc = \<lparr>loc_start = 5, loc_end = 10\<rparr>, d_loc = \<lparr>loc_start = 0, loc_end = 35\<rparr>,
      d_fields =
        [\<lparr>f_name = ''id'', f_loc = \<lparr>loc_start = 21, loc_end = 32\<rparr>,
          f_type = NonNullType (NamedType ''String''), f_arguments = [], f_directives = []\<rparr>],
      d_directives = []\<rparr>
   = [\<lparr>diag_loc = \<lparr>loc_start = 21, loc_end = 32\<rparr>, diag_entity = JStr ''Token'',
       diag_message = ''Field 'id': Entity IDs must be of type ID!''\<rparr>] \<and>
   validateEntityID
     \<lparr>d_kind = ObjectTypeDefinition, d_name = ''Token'',
      d_name_loc = \<lparr>loc_start = 5, loc_end = 10\<rparr>, d_loc = \<lparr>loc_start = 0, loc_end = 35\<rparr>,
      d_fields =
        [\<lparr>f_name = ''name'', f_loc = \<lparr>loc_start = 21, loc_end = 32\<rparr>,
          f_type = NamedType ''ID'', f_arguments = [], f_directives = []\<rparr>],
      d_directives = []\<rparr>
   = [\<lparr>diag_loc = \<lparr>loc_start = 0, loc_end = 35\<rparr>, diag_entity = JStr ''Token'',
       diag_message = ''Missing field: id: ID!''\<rparr>] \<and>
   validateEntityID
     \<lparr>d_kind = ObjectTypeDefinition, d_name = ''Token'',
      d_name_loc = \<lparr>loc_start = 5, loc_end = 10\<rparr>, d_loc = \<lparr>loc_start = 0, loc_end = 35\<rparr>,
      d_fields =
        [\<lparr>f_name = ''id'', f_loc = \<lparr>loc_start = 21, loc_end = 28\<rparr>,
          f_type = NonNullType (NamedType ''ID''), f_arguments = [], f_directives = []\<rparr>],
      d_directives = []\<rparr>
   = []"
proof -
  let ?string = "\<lparr>f_name = ''id'', f_loc = \<lparr>loc_start = 21, loc_end = 32\<rparr>,
          f_type = NonNullType (NamedType ''String''), f_arguments = [], f_directives = []\<rparr>"
  let ?name = "\<lparr>f_name = ''name'', f_loc = \<lparr>loc_start = 21, loc_end = 32\<rparr>,
          f_type = NamedType ''ID'', f_arguments = [], f_directives = []\<rparr>"
  let ?id = "\<lparr>f_name = ''id'', f_loc = \<lparr>loc_start = 21, loc_end = 28\<rparr>,
          f_type = NonNullType (NamedType ''ID''), f_arguments = [], f_directives = []\<rparr>"
  let ?def = "\<lambda>fields. \<lparr>d_kind = ObjectTypeDefinition, d_name = ''Token'',
      d_name_loc = \<lparr>loc_start = 5, loc_end = 10\<rparr>, d_loc = \<lparr>loc_start = 0, loc_end = 35\<rparr>,
      d_fields = fields, d_directives = []\<rparr>"
  have k: "d_kind (?def fields) = ObjectTypeDefinition" for fields by simp
  have n: "d_name (?def fields) \<noteq> RESERVED_TYPE" for fields by (simp add: RESERVED_TYPE_def)
  have a: "find (\<lambda>field. f_name field = ''id'') (d_fields (?def [?string])) = Some ?string \<and>
           f_type ?string \<noteq> NonNullType (NamedType ''ID'')" by simp
  have b: "find (\<lambda>field. f_name field = ''id'') (d_fields (?def [?name])) = None" by simp
  have c: "find (\<lambda>field. f_name field = ''id'') (d_fields (?def [?id])) = Some ?id \<and>
           f_type ?id = NonNullType (NamedType ''ID'')" by simp
  note 1 = entity_id_check [OF k [of "[?string]"] n [of "[?string]"], of "[]", THEN conjunct2, THEN conjunct2,
      THEN conjunct1, rule_format, OF a]
  note 2 = entity_id_check [OF k [of "[?name]"] n [of "[?name]"], of "[]", THEN conjunct2, THEN conjunct1,
      rule_format, OF b]
  note 3 = entity_id_check [OF k [of "[?id]"] n [of "[?id]"], of "[]", THEN conjunct2, THEN conjunct2,
      THEN conjunct2, rule_format, OF c]
  from 1 2 3 show ?thesis by simp
qed

text \<open>
  Claim C4, as stated, says that a \<^verbatim>\<open>@derivedFrom\<close> directive which does not have exactly
  one argument named \<^verbatim>\<open>field\<close>, and whose first argument is not a string literal, gets
  both diagnostics. The directive \<^verbatim>\<open>@derivedFrom(foo: 1)\<close> on the field \<^verbatim>\<open>tokens\<close> of \<^verbatim>\<open>User\<close>
  is wrong in both ways and gets the first diagnostic only.
\<close>

theorem derivedFrom_both_wrong_counterexample:
  "validateDerivedFromDirective []
     \<lparr>d_kind = ObjectTypeDefinition, d_name = ''User'',
      d_name_loc = \<lparr>loc_start = 5, loc_end = 9\<rparr>, d_loc = \<lparr>loc_start = 0, loc_end = 60\<rparr>,
      d_fields = [], d_directives = []\<rparr>
     \<lparr>f_name = ''tokens'', f_loc = \<lparr>loc_start = 20, loc_end = 58\<rparr>,
      f_type = NonNullType (ListType (NonNullType (NamedType ''Token''))),
      f_arguments = [], f_directives = []\<rparr>
     \<lparr>dir_name = ''derivedFrom'', dir_name_loc = \<lparr>loc_start = 39, loc_end = 50\<rparr>,
      dir_loc = \<lparr>loc_start = 38, loc_end = 58\<rparr>,
      dir_arguments = [\<lparr>arg_name = ''foo'', arg_value = IntValue ''1''\<rparr>]\<rparr>
   = Inr [\<lparr>diag_loc = \<lparr>loc_start = 38, loc_end = 58\<rparr>, diag_entity = JStr ''User'',
           diag_message = ''Field 'tokens': @derivedFrom directive must have a 'field' argument''\<rparr>]"
  by code_simp

text \<open>
  Claim C4, as amended. The checks of a \<^verbatim>\<open>@derivedFrom\<close> directive stop at the first one
  that fails. A directive that does not have exactly one argument, named \<^verbatim>\<open>field\<close>, gets
  exactly one diagnostic, that the directive must have a \<^verbatim>\<open>field\<close> argument, whatever the
  value of its first argument is. The diagnostic that the value of the argument must be
  a string is given, alone, to a directive with exactly one argument, named \<^verbatim>\<open>field\<close>,
  whose value is not a string literal.
\<close>

theorem derivedFrom_first_failing_check:
  "(length (dir_arguments directive) \<noteq> 1 \<or>
    arg_name (hd (dir_arguments directive)) \<noteq> ''field'' \<longrightarrow>
      validateDerivedFromDirective defs def field directive =
        Inr [\<lparr>diag_loc = dir_loc directive, diag_entity = JStr (d_name def),
              diag_message =
                ''Field '' @ quoted (f_name field) @
                '': @derivedFrom directive must have a 'field' argument''\<rparr>]) \<and>
   (length (dir_arguments directive) = 1 \<and>
    arg_name (hd (dir_arguments directive)) = ''field'' \<and>
    \<not> is_StringValue (arg_value (hd (dir_arguments directive))) \<longrightarrow>
      validateDerivedFromDirective defs def field directive =
        Inr [\<lparr>diag_loc = dir_loc directive, diag_entity = JStr (d_name def),
              diag_message =
                ''Field '' @ quoted (f_name field) @
                '': Value of the @derivedFrom 'field' argument must be a string''\<rparr>])"
proof (cases "dir_arguments directive")
  case Nil
  then show ?thesis by (simp add: validateDerivedFromDirective_def)
next
  case (Cons a as)
  show ?thesis
  proof (cases as)
    case Nil
    with Cons show ?thesis
      by (cases "arg_value a") (simp_all add: validateDerivedFromDirective_def)
  next
    case (Cons b bs)
    with \<open>dir_arguments directive = a # as\<close> show ?thesis
      by (simp add: validateDerivedFromDirective_def)
  qed
qed

theorem derivedFrom_first_failing_check_witness:
  "validateDerivedFromDirective []
     \<lparr>d_kind = ObjectTypeDefinition, d_name = ''User'',
      d_name_loc = \<lparr>loc_start = 5, loc_end = 9\<rparr>, d_loc = \<lparr>loc_start = 0, loc_end = 60\<rparr>,
      d_fields = [], d_directives = []\<rparr>
     \<lparr>f_name = ''tokens'', f_loc = \<lparr>loc_start = 20, loc_end = 58\<rparr>,
      f_type = NonNullType (ListType (NonNullType (NamedType ''Token''))),
      f_arguments = [], f_directives = []\<rparr>
     \<lparr>dir_name = ''derivedFrom'', dir_name_loc = \<lparr>loc_start = 39, loc_end = 50\<rparr>,
      dir_loc = \<lparr>loc_start = 38, loc_end = 58\<rparr>,
      dir_arguments = [\<lparr>arg_name = ''foo'', arg_value = IntValue ''1''\<rparr>]\<rparr>
   = Inr [\<lparr>diag_loc = \<lparr>loc_start = 38, loc_end = 58\<rparr>, diag_entity = JStr ''User'',
           diag_message = ''Field 'tokens': @derivedFrom directive must have a 'field' argument''\<rparr>] \<and>
   validateDerivedFromDirective []
     \<lparr>d_kind = ObjectTypeDefinition, d_name = ''User'',
      d_name_loc = \<lparr>loc_start = 5, loc_end = 9\<rparr>, d_loc = \<lparr>loc_start = 0, loc_end = 60\<rparr>,
      d_fields = [], d_directives = []\<rparr>
     \<lparr>f_name = ''tokens'', f_loc = \<lparr>loc_start = 20, loc_end = 58\<rparr>,
      f_type = NonNullType (ListType (NonNullType (NamedType ''Token''))),
      f_arguments = [], f_directives = []\<rparr>
     \<lparr>dir_name = ''derivedFrom'', dir_name_loc = \<lparr>loc_start = 39, loc_end = 50\<rparr>,
      dir_loc = \<lparr>loc_start = 38, loc_end = 58\<rparr>,
      dir_arguments = [\<lparr>arg_name = ''field'', arg_value = IntValue ''1''\<rparr>]\<rparr>
   = Inr [\<lparr>diag_loc = \<lparr>loc_start = 38, loc_end = 58\<rparr>, diag_entity = JStr ''User'',
           diag_message =
             ''Field 'tokens': Value of the @derivedFrom 'field' argument must be a string''\<rparr>]"
proof -
  let ?def = "\<lparr>d_kind = ObjectTypeDefinition, d_name = ''User'',
      d_name_loc = \<lparr>loc_start = 5, loc_end = 9\<rparr>, d_loc = \<lparr>loc_start = 0, loc_end = 60\<rparr>,
      d_fields = [], d_directives = []\<rparr>"
  let ?field = "\<lparr>f_name = ''tokens'', f_loc = \<lparr>loc_start = 20, loc_end = 58\<rparr>,
      f_type = NonNullType (ListType (NonNullType (NamedType ''Token''))),
      f_arguments = [], f_directives = []\<rparr>"
  let ?foo = "\<lparr>dir_name = ''derivedFrom'', dir_name_loc = \<lparr>loc_start = 39, loc_end = 50\<rparr>,
      dir_loc = \<lparr>loc_start = 38, loc_end = 58\<rparr>,
      dir_arguments = [\<lparr>arg_name = ''foo'', arg_value = IntValue ''1''\<rparr>]\<rparr>"
  let ?int = "\<lparr>dir_name = ''derivedFrom'', dir_name_loc = \<lparr>loc_start = 39, loc_end = 50\<rparr>,
      dir_loc = \<lparr>loc_start = 38, loc_end = 58\<rparr>,
      dir_arguments = [\<lparr>arg_name = ''field'', arg_value = IntValue ''1''\<rparr>]\<rparr>"
  have a: "length (dir_arguments ?foo) \<noteq> 1 \<or> arg_name (hd (dir_arguments ?foo)) \<noteq> ''field''"
    by simp
  have b: "length (dir_arguments ?int) = 1 \<and> arg_name (hd (dir_arguments ?int)) = ''field'' \<and>
           \<not> is_StringValue (arg_value (hd (dir_arguments ?int)))"
    by simp
  from derivedFrom_first_failing_check [of ?foo "[]" ?def ?field] a
  have 1: "validateDerivedFromDirective [] ?def ?field ?foo =
        Inr [\<lparr>diag_loc = dir_loc ?foo, diag_entity = JStr (d_name ?def),
              diag_message =
                ''Field '' @ quoted (f_name ?field) @
                '': @derivedFrom directive must have a 'field' argument''\<rparr>]"
    by blast
  from derivedFrom_first_failing_check [of ?int "[]" ?def ?field] b
  have 2: "validateDerivedFromDirective [] ?def ?field ?int =
        Inr [\<lparr>diag_loc = dir_loc ?int, diag_entity = JStr (d_name ?def),
              diag_message =
                ''Field '' @ quoted (f_name ?field) @
                '': Value of the @derivedFrom 'field' argument must be a string''\<rparr>]"
    by blast
  from 1 2 show ?thesis by (simp add: quoted_def)
qed

lemma entityTypeByName_Some:
  "entityTypeByName defs n = Some T \<Longrightarrow>
     T \<in> set defs \<and>
     (d_kind T = InterfaceTypeDefinition \<or> d_kind T = ObjectTypeDefinition) \<and>
     find (\<lambda>directive. dir_name directive = ''entity'') (d_directives T) \<noteq> None \<and>
     d_name T = n"
  unfolding entityTypeByName_def
  by (auto simp: find_Some_iff in_set_conv_nth dest!: nth_mem)


text \<open>
  The checks of the target of \<^verbatim>\<open>@derivedFrom\<close>, where \<open>unwrapType\<close> reaches a named type.
  Take a directive \<^verbatim>\<open>@derivedFrom(field: "f")\<close> on a field whose type unwraps to
  the named type \<open>n\<close>. When \<open>n\<close> resolves to a definition \<open>T\<close> (an object or interface type
  of the schema that carries \<^verbatim>\<open>@entity\<close> and is named \<open>n\<close>): if \<open>T\<close> has no field named \<open>f\<close>,
  the check gives exactly one diagnostic, that \<open>f\<close> does not exist on type \<open>T\<close>; if \<open>T\<close> has
  a field \<open>f\<close> whose type unwraps to a named type that does not resolve to an entity of
  the name of the origin type, it gives exactly one diagnostic, which names the three
  forms \<open>Origin\<close>, \<open>Origin!\<close> and \<open>[Origin!]!\<close>. When \<open>n\<close> does not resolve, it gives no
  diagnostic.
\<close>

lemma derivedFrom_target_checks:
  assumes wf: "dir_arguments directive = [\<lparr>arg_name = ''field'', arg_value = StringValue f\<rparr>]"
    and ty: "unwrapType (f_type field) = NamedType n"
  shows
   "(\<forall>T. entityTypeByName defs n = Some T \<longrightarrow>
          T \<in> set defs \<and>
          (d_kind T = InterfaceTypeDefinition \<or> d_kind T = ObjectTypeDefinition) \<and>
          find (\<lambda>directive. dir_name directive = ''entity'') (d_directives T) \<noteq> None \<and>
          d_name T = n) \<and>
    (\<forall>T. entityTypeByName defs n = Some T \<and>
          find (\<lambda>x. f_name x = f) (d_fields T) = None \<longrightarrow>
          validateDerivedFromDirective defs def field directive =
            Inr [\<lparr>diag_loc = dir_loc directive, diag_entity = JStr (d_name def),
                  diag_message =
                    ''Field '' @ quoted (f_name field) @ '': @derivedFrom field '' @ quoted f @
                    '' does not exist on type '' @ quoted (d_name T)\<rparr>]) \<and>
    (\<forall>T b m. entityTypeByName defs n = Some T \<and>
          find (\<lambda>x. f_name x = f) (d_fields T) = Some b \<and>
          unwrapType (f_type b) = NamedType m \<and>
          \<not> (\<exists>E. entityTypeByName defs m = Some E \<and> d_name E = d_name def) \<longrightarrow>
          validateDerivedFromDirective defs def field directive =
            Inr [\<lparr>diag_loc = dir_loc directive, diag_entity = JStr (d_name def),
                  diag_message =
                    ''Field '' @ quoted (f_name field) @ '': @derivedFrom field '' @ quoted f @
                    '' on type '' @ quoted (d_name T) @ '' must have the type '' @
                    quoted (d_name def) @ '', '' @ quoted (d_name def @ ''!'') @ '' or '' @
                    quoted (''['' @ d_name def @ ''!]!'')\<rparr>]) \<and>
    (entityTypeByName defs n = None \<longrightarrow>
          validateDerivedFromDirective defs def field directive = Inr [])"
proof -
  have 1: "T \<in> set defs \<and>
          (d_kind T = InterfaceTypeDefinition \<or> d_kind T = ObjectTypeDefinition) \<and>
          find (\<lambda>directive. dir_name directive = ''entity'') (d_directives T) \<noteq> None \<and>
          d_name T = n" if "entityTypeByName defs n = Some T" for T
    using that by (rule entityTypeByName_Some)
  have 2: "validateDerivedFromDirective defs def field directive =
            Inr [\<lparr>diag_loc = dir_loc directive, diag_entity = JStr (d_name def),
                  diag_message =
                    ''Field '' @ quoted (f_name field) @ '': @derivedFrom field '' @ quoted f @
                    '' does not exist on type '' @ quoted (d_name T)\<rparr>]"
    if "entityTypeByName defs n = Some T" and "find (\<lambda>x. f_name x = f) (d_fields T) = None" for T
    using that wf ty
    by (simp add: validateDerivedFromDirective_def fieldTargetEntity_def fieldTargetEntityName_def)
  have 3: "validateDerivedFromDirective defs def field directive =
            Inr [\<lparr>diag_loc = dir_loc directive, diag_entity = JStr (d_name def),
                  diag_message =
                    ''Field '' @ quoted (f_name field) @ '': @derivedFrom field '' @ quoted f @
                    '' on type '' @ quoted (d_name T) @ '' must have the type '' @
                    quoted (d_name def) @ '', '' @ quoted (d_name def @ ''!'') @ '' or '' @
                    quoted (''['' @ d_name def @ ''!]!'')\<rparr>]"
    if t: "entityTypeByName defs n = Some T"
      and b: "find (\<lambda>x. f_name x = f) (d_fields T) = Some b"
      and m: "unwrapType (f_type b) = NamedType m"
      and no: "\<not> (\<exists>E. entityTypeByName defs m = Some E \<and> d_name E = d_name def)" for T b m
  proof -
    from no have "entityTypeByName defs m = None \<or>
                  d_name (the (entityTypeByName defs m)) \<noteq> d_name def"
      by (cases "entityTypeByName defs m") simp_all
    with t b m wf ty show ?thesis
      by (simp add: validateDerivedFromDirective_def fieldTargetEntity_def
            fieldTargetEntityName_def Let_def)
  qed
  have 4: "validateDerivedFromDirective defs def field directive = Inr []"
    if "entityTypeByName defs n = None"
    using that wf ty
    by (simp add: validateDerivedFromDirective_def fieldTargetEntity_def fieldTargetEntityName_def)
  from 1 2 3 4 show ?thesis by blast
qed

lemmas example_defs =
  example_derivedFrom_def example_tokens_def example_created_def example_things_def
  example_entity_def example_User_def example_Token_def

lemma derivedFrom_target_checks_example:
  "validateDerivedFromDirective [example_User, example_Token] example_User example_tokens
     (example_derivedFrom 39 ''owner'') =
     Inr [\<lparr>diag_loc = \<lparr>loc_start = 39, loc_end = 66\<rparr>, diag_entity = JStr ''User'',
           diag_message =
             ''Field 'tokens': @derivedFrom field 'owner' does not exist on type '' @
             quoted ''Token''\<rparr>] \<and>
   validateDerivedFromDirective [example_User, example_Token] example_User example_created
     (example_derivedFrom 87 ''creator'') =
     Inr [\<lparr>diag_loc = \<lparr>loc_start = 87, loc_end = 116\<rparr>, diag_entity = JStr ''User'',
           diag_message =
             ''Field 'created': @derivedFrom field 'creator' on type 'Token' '' @
             ''must have the type 'User', 'User!' or '' @ quoted ''[User!]!''\<rparr>] \<and>
   validateDerivedFromDirective [example_User, example_Token] example_User example_things
     (example_derivedFrom 136 ''owner'') = Inr []"
proof -
  let ?defs = "[example_User, example_Token]"
  have wf: "dir_arguments (example_derivedFrom pos f) =
              [\<lparr>arg_name = ''field'', arg_value = StringValue f\<rparr>]" for pos f
    by (simp add: example_derivedFrom_def)
  have ty1: "unwrapType (f_type example_tokens) = NamedType ''Token''" by code_simp
  have ty2: "unwrapType (f_type example_created) = NamedType ''Token''" by code_simp
  have ty3: "unwrapType (f_type example_things) = NamedType ''Thing''" by code_simp
  have token: "entityTypeByName ?defs ''Token'' = Some example_Token" by code_simp
  have string: "entityTypeByName ?defs ''String'' = None" by code_simp
  have thing: "entityTypeByName ?defs ''Thing'' = None" by code_simp
  have no_owner: "find (\<lambda>x. f_name x = ''owner'') (d_fields example_Token) = None"
    by code_simp
  have creator: "find (\<lambda>x. f_name x = ''creator'') (d_fields example_Token) =
      Some \<lparr>f_name = ''creator'', f_loc = \<lparr>loc_start = 187, loc_end = 202\<rparr>,
            f_type = NamedType ''String'', f_arguments = [], f_directives = []\<rparr>"
    by code_simp
  have creator_ty: "unwrapType (f_type \<lparr>f_name = ''creator'', f_loc = \<lparr>loc_start = 187, loc_end = 202\<rparr>,
            f_type = NamedType ''String'', f_arguments = [], f_directives = []\<rparr>) = NamedType ''String''"
    by code_simp
  have no_backref: "\<not> (\<exists>E. entityTypeByName ?defs ''String'' = Some E \<and> d_name E = d_name example_User)"
    by (simp add: string)
  have 1: "validateDerivedFromDirective ?defs example_User example_tokens
             (example_derivedFrom 39 ''owner'') =
            Inr [\<lparr>diag_loc = dir_loc (example_derivedFrom 39 ''owner''),
                  diag_entity = JStr (d_name example_User),
                  diag_message =
                    ''Field '' @ quoted (f_name example_tokens) @ '': @derivedFrom field '' @
                    quoted ''owner'' @ '' does not exist on type '' @
                    quoted (d_name example_Token)\<rparr>]"
    using derivedFrom_target_checks [OF wf [of 39 "''owner''"] ty1, of ?defs example_User,
        THEN conjunct2, THEN conjunct1, rule_format, of example_Token] token no_owner
    by simp
  have 2: "validateDerivedFromDirective ?defs example_User example_created
             (example_derivedFrom 87 ''creator'') =
            Inr [\<lparr>diag_loc = dir_loc (example_derivedFrom 87 ''creator''),
                  diag_entity = JStr (d_name example_User),
                  diag_message =
                    ''Field '' @ quoted (f_name example_created) @ '': @derivedFrom field '' @
                    quoted ''creator'' @ '' on type '' @ quoted (d_name example_Token) @
                    '' must have the type '' @ quoted (d_name example_User) @ '', '' @
                    quoted (d_name example_User @ ''!'') @ '' or '' @
                    quoted (''['' @ d_name example_User @ ''!]!'')\<rparr>]"
    using derivedFrom_target_checks [OF wf [of 87 "''creator''"] ty2, of ?defs example_User,
        THEN conjunct2, THEN conjunct2, THEN conjunct1, rule_format,
        OF conjI [OF token conjI [OF creator conjI [OF creator_ty no_backref]]]]
    by simp
  have 3: "validateDerivedFromDirective ?defs example_User example_things
             (example_derivedFrom 136 ''owner'') = Inr []"
    using derivedFrom_target_checks [OF wf [of 136 "''owner''"] ty3, of ?defs example_User,
        THEN conjunct2, THEN conjunct2, THEN conjunct2, rule_format, OF thing] .
  from 1 2 3 show ?thesis
    by (simp add: quoted_def example_defs)
qed

text \<open>
  Claim C5. A directive \<^verbatim>\<open>@derivedFrom(field: "f")\<close> whose field refers to an entity \<open>T\<close>
  that has a field \<open>f\<close> is to get exactly one diagnostic, naming the three forms \<open>Origin\<close>,
  \<open>Origin!\<close> and \<open>[Origin!]!\<close>, when the innermost named type of \<open>f\<close> does not resolve to
  an entity of the name of the origin type. In the schema
  \<^verbatim>\<open>type User @entity { id: ID!  things: [Named!]! @derivedFrom(field: "owner") }\<close>,
  \<^verbatim>\<open>interface Named @entity { owner: [[Other]] }\<close> the field \<^verbatim>\<open>things\<close> refers to the entity
  \<^verbatim>\<open>Named\<close>, which has the field \<^verbatim>\<open>owner\<close>, and the innermost named type \<^verbatim>\<open>Other\<close> of \<^verbatim>\<open>owner\<close>
  resolves to no entity. The check throws a TypeError instead, and so does the validation
  of the schema: \<open>unwrapType\<close> returns the List node \<^verbatim>\<open>[Other]\<close> for \<^verbatim>\<open>[[Other]]\<close>, and the check
  reads the name of that node.
\<close>

theorem derivedFrom_nested_list_backref_throws:
  "validateDerivedFromDirective
     [\<lparr>d_kind = ObjectTypeDefinition, d_name = ''User'',
       d_name_loc = \<lparr>loc_start = 5, loc_end = 9\<rparr>, d_loc = \<lparr>loc_start = 0, loc_end = 76\<rparr>,
       d_fields =
         [\<lparr>f_name = ''id'', f_loc = \<lparr>loc_start = 20, loc_end = 27\<rparr>,
           f_type = NonNullType (NamedType ''ID''), f_arguments = [], f_directives = []\<rparr>,
          \<lparr>f_name = ''things'', f_loc = \<lparr>loc_start = 29, loc_end = 74\<rparr>,
           f_type = NonNullType (ListType (NonNullType (NamedType ''Named''))),
           f_arguments = [],
           f_directives =
             [\<lparr>dir_name = ''derivedFrom'', dir_name_loc = \<lparr>loc_start = 48, loc_end = 59\<rparr>,
               dir_loc = \<lparr>loc_start = 47, loc_end = 74\<rparr>,
               dir_arguments = [\<lparr>arg_name = ''field'', arg_value = StringValue ''owner''\<rparr>]\<rparr>]\<rparr>],
       d_directives =
         [\<lparr>dir_name = ''entity'', dir_name_loc = \<lparr>loc_start = 11, loc_end = 17\<rparr>,
           dir_loc = \<lparr>loc_start = 10, loc_end = 17\<rparr>, dir_arguments = []\<rparr>]\<rparr>,
      \<lparr>d_kind = InterfaceTypeDefinition, d_name = ''Named'',
       d_name_loc = \<lparr>loc_start = 87, loc_end = 92\<rparr>, d_loc = \<lparr>loc_start = 77, loc_end = 121\<rparr>,
       d_fields =
         [\<lparr>f_name = ''owner'', f_loc = \<lparr>loc_start = 103, loc_end = 119\<rparr>,
           f_type = ListType (ListType (NamedType ''Other'')),
           f_arguments = [], f_directives = []\<rparr>],
       d_directives =
         [\<lparr>dir_name = ''entity'', dir_name_loc = \<lparr>loc_start = 94, loc_end = 100\<rparr>,
           dir_loc = \<lparr>loc_start = 93, loc_end = 100\<rparr>, dir_arguments = []\<rparr>]\<rparr>]
     \<lparr>d_kind = ObjectTypeDefinition, d_name = ''User'',
       d_name_loc = \<lparr>loc_start = 5, loc_end = 9\<rparr>, d_loc = \<lparr>loc_start = 0, loc_end = 76\<rparr>,
       d_fields =
         [\<lparr>f_name = ''id'', f_loc = \<lparr>loc_start = 20, loc_end = 27\<rparr>,
           f_type = NonNullType (NamedType ''ID''), f_arguments = [], f_directives = []\<rparr>,
          \<lparr>f_name = ''things'', f_loc = \<lparr>loc_start = 29, loc_end = 74\<rparr>,
           f_type = NonNullType (ListType (NonNullType (NamedType ''Named''))),
           f_arguments = [],
           f_directives =
             [\<lparr>dir_name = ''derivedFrom'', dir_name_loc = \<lparr>loc_start = 48, loc_end = 59\<rparr>,
               dir_loc = \<lparr>loc_start = 47, loc_end = 74\<rparr>,
               dir_arguments = [\<lparr>arg_name = ''field'', arg_value = StringValue ''owner''\<rparr>]\<rparr>]\<rparr>],
       d_directives =
         [\<lparr>dir_name = ''entity'', dir_name_loc = \<lparr>loc_start = 11, loc_end = 17\<rparr>,
           dir_loc = \<lparr>loc_start = 10, loc_end = 17\<rparr>, dir_arguments = []\<rparr>]\<rparr>
     \<lparr>f_name = ''things'', f_loc = \<lparr>loc_start = 29, loc_end = 74\<rparr>,
      f_type = NonNullType (ListType (NonNullType (NamedType ''Named''))),
      f_arguments = [],
      f_directives =
        [\<lparr>dir_name = ''derivedFrom'', dir_name_loc = \<lparr>loc_start = 48, loc_end = 59\<rparr>,
          dir_loc = \<lparr>loc_start = 47, loc_end = 74\<rparr>,
          dir_arguments = [\<lparr>arg_name = ''field'', arg_value = StringValue ''owner''\<rparr>]\<rparr>]\<rparr>
     \<lparr>dir_name = ''derivedFrom'', dir_name_loc = \<lparr>loc_start = 48, loc_end = 59\<rparr>,
      dir_loc = \<lparr>loc_start = 47, loc_end = 74\<rparr>,
      dir_arguments = [\<lparr>arg_name = ''field'', arg_value = StringValue ''owner''\<rparr>]\<rparr>
   = Inl TypeError \<and>
   validateSchema
     [\<lparr>d_kind = ObjectTypeDefinition, d_name = ''User'',
       d_name_loc = \<lparr>loc_start = 5, loc_end = 9\<rparr>, d_loc = \<lparr>loc_start = 0, loc_end = 76\<rparr>,
       d_fields =
         [\<lparr>f_name = ''id'', f_loc = \<lparr>loc_start = 20, loc_end = 27\<rparr>,
           f_type = NonNullType (NamedType ''ID''), f_arguments = [], f_directives = []\<rparr>,
          \<lparr>f_name = ''things'', f_loc = \<lparr>loc_start = 29, loc_end = 74\<rparr>,
           f_type = NonNullType (ListType (NonNullType (NamedType ''Named''))),
           f_arguments = [],
           f_directives =
             [\<lparr>dir_name = ''derivedFrom'', dir_name_loc = \<lparr>loc_start = 48, loc_end = 59\<rparr>,
               dir_loc = \<lparr>loc_start = 47, loc_end = 74\<rparr>,
               dir_arguments = [\<lparr>arg_name = ''field'', arg_value = StringValue ''owner''\<rparr>]\<rparr>]\<rparr>],
       d_directives =
         [\<lparr>dir_name = ''entity'', dir_name_loc = \<lparr>loc_start = 11, loc_end = 17\<rparr>,
           dir_loc = \<lparr>loc_start = 10, loc_end = 17\<rparr>, dir_arguments = []\<rparr>]\<rparr>,
      \<lparr>d_kind = InterfaceTypeDefinition, d_name = ''Named'',
       d_name_loc = \<lparr>loc_start = 87, loc_end = 92\<rparr>, d_loc = \<lparr>loc_start = 77, loc_end = 121\<rparr>,
       d_fields =
         [\<lparr>f_name = ''owner'', f_loc = \<lparr>loc_start = 103, loc_end = 119\<rparr>,
           f_type = ListType (ListType (NamedType ''Other'')),
           f_arguments = [], f_directives = []\<rparr>],
       d_directives =
         [\<lparr>dir_name = ''entity'', dir_name_loc = \<lparr>loc_start = 94, loc_end = 100\<rparr>,
           dir_loc = \<lparr>loc_start = 93, loc_end = 100\<rparr>, dir_arguments = []\<rparr>]\<rparr>]
   = Inl TypeError"
  by code_simp

text \<open>
  The check of the inner type, where \<open>unwrapType\<close> reaches a named type. Take a field
  whose type unwraps to the named type \<open>N\<close>, in a schema whose imported types can be
  gathered. When \<open>N\<close> is none of the seven built-in scalar types,
  of the local types and of the imported types, the check of the inner type gives
  exactly one diagnostic; its message is \<^verbatim>\<open>Field '<name>': Unknown type '<N>'.\<close>, followed by
  \<^verbatim>\<open> Did you mean '<S>'?\<close> exactly when the table of suggestions has a first match \<open>S\<close>
  for \<open>N\<close>. The table suggests \<^verbatim>\<open>Bytes\<close> for \<^verbatim>\<open>address\<close> and nothing for \<^verbatim>\<open>adress\<close>. When \<open>N\<close>
  is one of those types, the check gives no diagnostic.
\<close>

lemma unknown_inner_type:
  assumes ty: "unwrapType (f_type field) = NamedType N"
    and imp: "gatherImportedTypes defs = Inr imported"
  shows
   "(\<not> (N \<in> set BUILTIN_SCALAR_TYPES \<or> N \<in> set (gatherLocalTypes defs) \<or>
         JStr N \<in> set imported) \<longrightarrow>
       validateInnerFieldType defs def field =
         Inr [\<lparr>diag_loc = f_loc field, diag_entity = JStr (d_name def),
               diag_message =
                 ''Field '' @ quoted (f_name field) @ '': Unknown type '' @ quoted N @ ''.'' @
                 (case typeSuggestion N of
                    Some S \<Rightarrow> '' Did you mean '' @ quoted S @ ''?''
                  | None \<Rightarrow> [])\<rparr>]) \<and>
    (N \<in> set BUILTIN_SCALAR_TYPES \<or> N \<in> set (gatherLocalTypes defs) \<or>
     JStr N \<in> set imported \<longrightarrow>
       validateInnerFieldType defs def field = Inr []) \<and>
    set BUILTIN_SCALAR_TYPES =
      {''Boolean'', ''Int'', ''BigDecimal'', ''String'', ''BigInt'', ''Bytes'', ''ID''} \<and>
    typeSuggestion ''address'' = Some ''Bytes'' \<and>
    typeSuggestion ''adress'' = None"
proof -
  have mem: "(JStr N \<in> set (map JStr BUILTIN_SCALAR_TYPES @
                             map JStr (gatherLocalTypes defs) @ imported)) =
             (N \<in> set BUILTIN_SCALAR_TYPES \<or> N \<in> set (gatherLocalTypes defs) \<or>
              JStr N \<in> set imported)"
    by auto
  have 1: "validateInnerFieldType defs def field =
         Inr [\<lparr>diag_loc = f_loc field, diag_entity = JStr (d_name def),
               diag_message =
                 ''Field '' @ quoted (f_name field) @ '': Unknown type '' @ quoted N @ ''.'' @
                 (case typeSuggestion N of
                    Some S \<Rightarrow> '' Did you mean '' @ quoted S @ ''?''
                  | None \<Rightarrow> [])\<rparr>]"
    if "\<not> (N \<in> set BUILTIN_SCALAR_TYPES \<or> N \<in> set (gatherLocalTypes defs) \<or>
            JStr N \<in> set imported)"
    unfolding validateInnerFieldType_def using that ty imp
    by (simp only: mem name_value.simps sum.case if_False append_assoc)
       (simp)
  have 2: "validateInnerFieldType defs def field = Inr []"
    if "N \<in> set BUILTIN_SCALAR_TYPES \<or> N \<in> set (gatherLocalTypes defs) \<or>
        JStr N \<in> set imported"
    unfolding validateInnerFieldType_def using that ty imp
    by (simp only: mem name_value.simps sum.case if_True)
  have 3: "set BUILTIN_SCALAR_TYPES =
      {''Boolean'', ''Int'', ''BigDecimal'', ''String'', ''BigInt'', ''Bytes'', ''ID''}"
    by (simp add: BUILTIN_SCALAR_TYPES_def)
  have 4: "typeSuggestion ''address'' = Some ''Bytes''" by code_simp
  have 5: "typeSuggestion ''adress'' = None" by code_simp
  from 1 2 3 4 5 show ?thesis by blast
qed

lemma unknown_inner_type_example:
  "validateInnerFieldType
     [\<lparr>d_kind = ObjectTypeDefinition, d_name = ''Token'',
       d_name_loc = \<lparr>loc_start = 5, loc_end = 10\<rparr>, d_loc = \<lparr>loc_start = 0, loc_end = 47\<rparr>,
       d_fields =
         [\<lparr>f_name = ''id'', f_loc = \<lparr>loc_start = 21, loc_end = 28\<rparr>,
           f_type = NonNullType (NamedType ''ID''), f_arguments = [], f_directives = []\<rparr>,
          \<lparr>f_name = ''owner'', f_loc = \<lparr>loc_start = 31, loc_end = 45\<rparr>,
           f_type = NamedType ''address'', f_arguments = [], f_directives = []\<rparr>],
       d_directives =
         [\<lparr>dir_name = ''entity'', dir_name_loc = \<lparr>loc_start = 12, loc_end = 18\<rparr>,
           dir_loc = \<lparr>loc_start = 11, loc_end = 18\<rparr>, dir_arguments = []\<rparr>]\<rparr>]
     \<lparr>d_kind = ObjectTypeDefinition, d_name = ''Token'',
       d_name_loc = \<lparr>loc_start = 5, loc_end = 10\<rparr>, d_loc = \<lparr>loc_start = 0, loc_end = 47\<rparr>,
       d_fields =
         [\<lparr>f_name = ''id'', f_loc = \<lparr>loc_start = 21, loc_end = 28\<rparr>,
           f_type = NonNullType (NamedType ''ID''), f_arguments = [], f_directives = []\<rparr>,
          \<lparr>f_name = ''owner'', f_loc = \<lparr>loc_start = 31, loc_end = 45\<rparr>,
           f_type = NamedType ''address'', f_arguments = [], f_directives = []\<rparr>],
       d_directives =
         [\<lparr>dir_name = ''entity'', dir_name_loc = \<lparr>loc_start = 12, loc_end = 18\<rparr>,
           dir_loc = \<lparr>loc_start = 11, loc_end = 18\<rparr>, dir_arguments = []\<rparr>]\<rparr>
     \<lparr>f_name = ''owner'', f_loc = \<lparr>loc_start = 31, loc_end = 45\<rparr>,
      f_type = NamedType ''address'', f_arguments = [], f_directives = []\<rparr>
   = Inr [\<lparr>diag_loc = \<lparr>loc_start = 31, loc_end = 45\<rparr>, diag_entity = JStr ''Token'',
           diag_message = ''Field 'owner': Unknown type 'address'. Did you mean 'Bytes'?''\<rparr>] \<and>
   validateInnerFieldType
     [\<lparr>d_kind = ObjectTypeDefinition, d_name = ''Token'',
       d_name_loc = \<lparr>loc_start = 5, loc_end = 10\<rparr>, d_loc = \<lparr>loc_start = 0, loc_end = 47\<rparr>,
       d_fields =
         [\<lparr>f_name = ''id'', f_loc = \<lparr>loc_start = 21, loc_end = 28\<rparr>,
           f_type = NonNullType (NamedType ''ID''), f_arguments = [], f_directives = []\<rparr>,
          \<lparr>f_name = ''owner'', f_loc = \<lparr>loc_start = 31, loc_end = 45\<rparr>,
           f_type = NamedType ''address'', f_arguments = [], f_directives = []\<rparr>],
       d_directives =
         [\<lparr>dir_name = ''entity'', dir_name_loc = \<lparr>loc_start = 12, loc_end = 18\<rparr>,
           dir_loc = \<lparr>loc_start = 11, loc_end = 18\<rparr>, dir_arguments = []\<rparr>]\<rparr>]
     \<lparr>d_kind = ObjectTypeDefinition, d_name = ''Token'',
       d_name_loc = \<lparr>loc_start = 5, loc_end = 10\<rparr>, d_loc = \<lparr>loc_start = 0, loc_end = 47\<rparr>,
       d_fields =
         [\<lparr>f_name = ''id'', f_loc = \<lparr>loc_start = 21, loc_end = 28\<rparr>,
           f_type = NonNullType (NamedType ''ID''), f_arguments = [], f_directives = []\<rparr>,
          \<lparr>f_name = ''owner'', f_loc = \<lparr>loc_start = 31, loc_end = 45\<rparr>,
           f_type = NamedType ''address'', f_arguments = [], f_directives = []\<rparr>],
       d_directives =
         [\<lparr>dir_name = ''entity'', dir_name_loc = \<lparr>loc_start = 12, loc_end = 18\<rparr>,
           dir_loc = \<lparr>loc_start = 11, loc_end = 18\<rparr>, dir_arguments = []\<rparr>]\<rparr>
     \<lparr>f_name = ''id'', f_loc = \<lparr>loc_start = 21, loc_end = 28\<rparr>,
      f_type = NonNullType (NamedType ''ID''), f_arguments = [], f_directives = []\<rparr>
   = Inr []"
proof -
  let ?id = "\<lparr>f_name = ''id'', f_loc = \<lparr>loc_start = 21, loc_end = 28\<rparr>,
      f_type = NonNullType (NamedType ''ID''), f_arguments = [], f_directives = []\<rparr>"
  let ?owner = "\<lparr>f_name = ''owner'', f_loc = \<lparr>loc_start = 31, loc_end = 45\<rparr>,
      f_type = NamedType ''address'', f_arguments = [], f_directives = []\<rparr>"
  let ?def = "\<lparr>d_kind = ObjectTypeDefinition, d_name = ''Token'',
       d_name_loc = \<lparr>loc_start = 5, loc_end = 10\<rparr>, d_loc = \<lparr>loc_start = 0, loc_end = 47\<rparr>,
       d_fields = [?id, ?owner],
       d_directives =
         [\<lparr>dir_name = ''entity'', dir_name_loc = \<lparr>loc_start = 12, loc_end = 18\<rparr>,
           dir_loc = \<lparr>loc_start = 11, loc_end = 18\<rparr>, dir_arguments = []\<rparr>]\<rparr>"
  have imp: "gatherImportedTypes [?def] = Inr []" by code_simp
  have ty1: "unwrapType (f_type ?owner) = NamedType ''address''" by code_simp
  have ty2: "unwrapType (f_type ?id) = NamedType ''ID''" by code_simp
  have unknown: "\<not> (''address'' \<in> set BUILTIN_SCALAR_TYPES \<or>
                     ''address'' \<in> set (gatherLocalTypes [?def]) \<or>
                     JStr ''address'' \<in> set [])"
    by code_simp
  have known: "''ID'' \<in> set BUILTIN_SCALAR_TYPES \<or>
               ''ID'' \<in> set (gatherLocalTypes [?def]) \<or> JStr ''ID'' \<in> set []"
    by code_simp
  note t1 = unknown_inner_type [OF ty1 imp, of ?def]
  note t2 = unknown_inner_type [OF ty2 imp, of ?def]
  have s: "typeSuggestion ''address'' = Some ''Bytes''"
    using t1 by (elim conjE)
  have 1: "validateInnerFieldType [?def] ?def ?owner =
      Inr [\<lparr>diag_loc = f_loc ?owner, diag_entity = JStr (d_name ?def),
               diag_message =
                 ''Field '' @ quoted (f_name ?owner) @ '': Unknown type '' @
                 quoted ''address'' @ ''.'' @
                 (case typeSuggestion ''address'' of
                    Some S \<Rightarrow> '' Did you mean '' @ quoted S @ ''?''
                  | None \<Rightarrow> [])\<rparr>]"
    using t1 [THEN conjunct1, rule_format, OF unknown] .
  have 2: "validateInnerFieldType [?def] ?def ?id = Inr []"
    using t2 [THEN conjunct2, THEN conjunct1, rule_format, OF known] .
  from 1 2 show ?thesis by (simp add: s quoted_def)
qed

text \<open>
  Claim C8. A field of an entity type whose innermost named type \<open>N\<close> is none of the
  built-in scalar types, of the local types and of the imported types is to get exactly
  one diagnostic with \<^verbatim>\<open>Unknown type '<N>'\<close>. In
  \<^verbatim>\<open>type Token @entity { id: ID!  x: [[Foo]]! }\<close> the innermost named type \<^verbatim>\<open>Foo\<close> of the field
  \<^verbatim>\<open>x\<close> is none of them (the local types are \<^verbatim>\<open>Token\<close>, nothing is imported). The check of
  the list shape gives nothing for the field, and the check of the inner type throws a
  TypeError, as does the validation of the schema: \<open>unwrapType\<close> returns the List node
  \<^verbatim>\<open>[Foo]\<close> for \<^verbatim>\<open>[[Foo]]!\<close>, and the check reads the name of that node.
\<close>

theorem unknown_inner_type_nested_list_throws:
  "gatherLocalTypes
     [\<lparr>d_kind = ObjectTypeDefinition, d_name = ''Token'',
       d_name_loc = \<lparr>loc_start = 5, loc_end = 10\<rparr>, d_loc = \<lparr>loc_start = 0, loc_end = 44\<rparr>,
       d_fields =
         [\<lparr>f_name = ''id'', f_loc = \<lparr>loc_start = 21, loc_end = 28\<rparr>,
           f_type = NonNullType (NamedType ''ID''), f_arguments = [], f_directives = []\<rparr>,
          \<lparr>f_name = ''x'', f_loc = \<lparr>loc_start = 30, loc_end = 42\<rparr>,
           f_type = NonNullType (ListType (ListType (NamedType ''Foo''))),
           f_arguments = [], f_directives = []\<rparr>],
       d_directives =
         [\<lparr>dir_name = ''entity'', dir_name_loc = \<lparr>loc_start = 12, loc_end = 18\<rparr>,
           dir_loc = \<lparr>loc_start = 11, loc_end = 18\<rparr>, dir_arguments = []\<rparr>]\<rparr>]
   = [''Token''] \<and>
   gatherImportedTypes
     [\<lparr>d_kind = ObjectTypeDefinition, d_name = ''Token'',
       d_name_loc = \<lparr>loc_start = 5, loc_end = 10\<rparr>, d_loc = \<lparr>loc_start = 0, loc_end = 44\<rparr>,
       d_fields =
         [\<lparr>f_name = ''id'', f_loc = \<lparr>loc_start = 21, loc_end = 28\<rparr>,
           f_type = NonNullType (NamedType ''ID''), f_arguments = [], f_directives = []\<rparr>,
          \<lparr>f_name = ''x'', f_loc = \<lparr>loc_start = 30, loc_end = 42\<rparr>,
           f_type = NonNullType (ListType (ListType (NamedType ''Foo''))),
           f_arguments = [], f_directives = []\<rparr>],
       d_directives =
         [\<lparr>dir_name = ''entity'', dir_name_loc = \<lparr>loc_start = 12, loc_end = 18\<rparr>,
           dir_loc = \<lparr>loc_start = 11, loc_end = 18\<rparr>, dir_arguments = []\<rparr>]\<rparr>]
   = Inr [] \<and>
   validateListFieldType
     \<lparr>d_kind = ObjectTypeDefinition, d_name = ''Token'',
       d_name_loc = \<lparr>loc_start = 5, loc_end = 10\<rparr>, d_loc = \<lparr>loc_start = 0, loc_end = 44\<rparr>,
       d_fields =
         [\<lparr>f_name = ''id'', f_loc = \<lparr>loc_start = 21, loc_end = 28\<rparr>,
           f_type = NonNullType (NamedType ''ID''), f_arguments = [], f_directives = []\<rparr>,
          \<lparr>f_name = ''x'', f_loc = \<lparr>loc_start = 30, loc_end = 42\<rparr>,
           f_type = NonNullType (ListType (ListType (NamedType ''Foo''))),
           f_arguments = [], f_directives = []\<rparr>],
       d_directives =
         [\<lparr>dir_name = ''entity'', dir_name_loc = \<lparr>loc_start = 12, loc_end = 18\<rparr>,
           dir_loc = \<lparr>loc_start = 11, loc_end = 18\<rparr>, dir_arguments = []\<rparr>]\<rparr>
     \<lparr>f_name = ''x'', f_loc = \<lparr>loc_start = 30, loc_end = 42\<rparr>,
      f_type = NonNullType (ListType (ListType (NamedType ''Foo''))),
      f_arguments = [], f_directives = []\<rparr>
   = Inr [] \<and>
   validateInnerFieldType
     [\<lparr>d_kind = ObjectTypeDefinition, d_name = ''Token'',
       d_name_loc = \<lparr>loc_start = 5, loc_end = 10\<rparr>, d_loc = \<lparr>loc_start = 0, loc_end = 44\<rparr>,
       d_fields =
         [\<lparr>f_name = ''id'', f_loc = \<lparr>loc_start = 21, loc_end = 28\<rparr>,
           f_type = NonNullType (NamedType ''ID''), f_arguments = [], f_directives = []\<rparr>,
          \<lparr>f_name = ''x'', f_loc = \<lparr>loc_start = 30, loc_end = 42\<rparr>,
           f_type = NonNullType (ListType (ListType (NamedType ''Foo''))),
           f_arguments = [], f_directives = []\<rparr>],
       d_directives =
         [\<lparr>dir_name = ''entity'', dir_name_loc = \<lparr>loc_start = 12, loc_end = 18\<rparr>,
           dir_loc = \<lparr>loc_start = 11, loc_end = 18\<rparr>, dir_arguments = []\<rparr>]\<rparr>]
     \<lparr>d_kind = ObjectTypeDefinition, d_name = ''Token'',
       d_name_loc = \<lparr>loc_start = 5, loc_end = 10\<rparr>, d_loc = \<lparr>loc_start = 0, loc_end = 44\<rparr>,
       d_fields =
         [\<lparr>f_name = ''id'', f_loc = \<lparr>loc_start = 21, loc_end = 28\<rparr>,
           f_type = NonNullType (NamedType ''ID''), f_arguments = [], f_directives = []\<rparr>,
          \<lparr>f_name = ''x'', f_loc = \<lparr>loc_start = 30, loc_end = 42\<rparr>,
           f_type = NonNullType (ListType (ListType (NamedType ''Foo''))),
           f_arguments = [], f_directives = []\<rparr>],
       d_directives =
         [\<lparr>dir_name = ''entity'', dir_name_loc = \<lparr>loc_start = 12, loc_end = 18\<rparr>,
           dir_loc = \<lparr>loc_start = 11, loc_end = 18\<rparr>, dir_arguments = []\<rparr>]\<rparr>
     \<lparr>f_name = ''x'', f_loc = \<lparr>loc_start = 30, loc_end = 42\<rparr>,
      f_type = NonNullType (ListType (ListType (NamedType ''Foo''))),
      f_arguments = [], f_directives = []\<rparr>
   = Inl TypeError \<and>
   validateSchema
     [\<lparr>d_kind = ObjectTypeDefinition, d_name = ''Token'',
       d_name_loc = \<lparr>loc_start = 5, loc_end = 10\<rparr>, d_loc = \<lparr>loc_start = 0, loc_end = 44\<rparr>,
       d_fields =
         [\<lparr>f_name = ''id'', f_loc = \<lparr>loc_start = 21, loc_end = 28\<rparr>,
           f_type = NonNullType (NamedType ''ID''), f_arguments = [], f_directives = []\<rparr>,
          \<lparr>f_name = ''x'', f_loc = \<lparr>loc_start = 30, loc_end = 42\<rparr>,
           f_type = NonNullType (ListType (ListType (NamedType ''Foo''))),
           f_arguments = [], f_directives = []\<rparr>],
       d_directives =
         [\<lparr>dir_name = ''entity'', dir_name_loc = \<lparr>loc_start = 12, loc_end = 18\<rparr>,
           dir_loc = \<lparr>loc_start = 11, loc_end = 18\<rparr>, dir_arguments = []\<rparr>]\<rparr>]
   = Inl TypeError"
  by code_simp

text \<open>The check of the inner type also throws when the imported types cannot be gathered:
  the field \<^verbatim>\<open>y: Foo\<close> beside \<^verbatim>\<open>type _Schema_ @import(types: "A", from: { name: "x" })\<close>.\<close>

lemma unknown_inner_type_bad_import_throws:
  \<open>validateInnerFieldType
     [\<lparr>d_kind = ObjectTypeDefinition, d_name = ''_Schema_'',
       d_name_loc = \<lparr>loc_start = 5, loc_end = 13\<rparr>, d_loc = \<lparr>loc_start = 0, loc_end = 55\<rparr>,
       d_fields = [],
       d_directives =
         [\<lparr>dir_name = ''import'', dir_name_loc = \<lparr>loc_start = 15, loc_end = 21\<rparr>,
           dir_loc = \<lparr>loc_start = 14, loc_end = 55\<rparr>,
           dir_arguments =
             [\<lparr>arg_name = ''types'', arg_value = StringValue ''A''\<rparr>,
              \<lparr>arg_name = ''from'',
               arg_value = ObjectValue
                 [(''name'', \<lparr>loc_start = 41, loc_end = 45\<rparr>, StringValue ''x'')]\<rparr>]\<rparr>]\<rparr>]
     def
     \<lparr>f_name = ''y'', f_loc = \<lparr>loc_start = 80, loc_end = 86\<rparr>,
      f_type = NamedType ''Foo'', f_arguments = [], f_directives = []\<rparr>
   = Inl TypeError\<close>
  by (simp add: validateInnerFieldType_def unwrapType_def gatherImportedTypes_def
        importedTypesOfDirective_def importWithTypes_def RESERVED_TYPE_def)

section \<open>Naming collisions\<close>

lemma collision_step_invariant:
  assumes s: "seen st = set xs"
    and c: "conflicting st = {n. 2 \<le> count_list xs n}"
    and cnt: "\<forall>n. length (filter (\<lambda>d. diag_entity d = n) (errors st)) =
                (if 2 \<le> count_list xs n then 1 else 0)"
    and shape: "\<forall>d \<in> set (errors st).
            diag_loc d = \<lparr>loc_start = 1, loc_end = 1\<rparr> \<and>
            diag_message d =
              ''Type '' @ quoted (to_string (diag_entity d)) @ '' is defined more than once''"
  shows "seen (collision_step st x) = set (xs @ [x]) \<and>
         conflicting (collision_step st x) = {n. 2 \<le> count_list (xs @ [x]) n} \<and>
         (\<forall>n. length (filter (\<lambda>d. diag_entity d = n) (errors (collision_step st x))) =
                (if 2 \<le> count_list (xs @ [x]) n then 1 else 0)) \<and>
         (\<forall>d \<in> set (errors (collision_step st x)).
            diag_loc d = \<lparr>loc_start = 1, loc_end = 1\<rparr> \<and>
            diag_message d =
              ''Type '' @ quoted (to_string (diag_entity d)) @ '' is defined more than once'')"
proof (cases "x \<in> set xs \<and> \<not> 2 \<le> count_list xs x")
  case True
  then have "count_list xs x \<noteq> 0" by (simp add: count_list_0_iff)
  with True have one: "count_list xs x = 1" by arith
  have step: "collision_step st x =
        st\<lparr>errors := errors st @
                  [\<lparr>diag_loc = \<lparr>loc_start = 1, loc_end = 1\<rparr>, diag_entity = x,
                    diag_message =
                      ''Type '' @ quoted (to_string x) @ '' is defined more than once''\<rparr>],
            conflicting := insert x (conflicting st)\<rparr>"
    using True s c by (simp add: collision_step_def)
  have 1: "seen (collision_step st x) = set (xs @ [x])"
    using True s by (auto simp: step)
  have 2: "conflicting (collision_step st x) = {n. 2 \<le> count_list (xs @ [x]) n}"
    using c one by (auto simp: step)
  have 3: "length (filter (\<lambda>d. diag_entity d = n) (errors (collision_step st x))) =
                (if 2 \<le> count_list (xs @ [x]) n then 1 else 0)" for n
    using cnt [rule_format, of n] one step by (cases "x = n") auto
  have 4: "diag_loc d = \<lparr>loc_start = 1, loc_end = 1\<rparr> \<and>
            diag_message d =
              ''Type '' @ quoted (to_string (diag_entity d)) @ '' is defined more than once''"
    if "d \<in> set (errors (collision_step st x))" for d
    using that shape by (auto simp: step)
  from 1 2 3 4 show ?thesis by blast
next
  case False
  from False have cond: "\<not> (x \<in> seen st \<and> x \<notin> conflicting st)"
    using s c by simp
  have step: "collision_step st x = st\<lparr>seen := insert x (seen st)\<rparr>"
    unfolding collision_step_def using cond by (simp only: if_False)
  have same: "(2 \<le> count_list (xs @ [x]) n) = (2 \<le> count_list xs n)" for n
    using False by (cases "x = n") (auto simp: count_list_0_iff)
  have 1: "seen (collision_step st x) = set (xs @ [x])"
    using s by (auto simp: step)
  have 2: "conflicting (collision_step st x) = {n. 2 \<le> count_list (xs @ [x]) n}"
    using c by (simp only: same) (simp add: step)
  have 3: "length (filter (\<lambda>d. diag_entity d = n) (errors (collision_step st x))) =
                (if 2 \<le> count_list (xs @ [x]) n then 1 else 0)" for n
    using cnt [rule_format, of n] by (simp only: same) (simp add: step)
  have 4: "diag_loc d = \<lparr>loc_start = 1, loc_end = 1\<rparr> \<and>
            diag_message d =
              ''Type '' @ quoted (to_string (diag_entity d)) @ '' is defined more than once''"
    if "d \<in> set (errors (collision_step st x))" for d
    using that shape by (auto simp: step)
  from 1 2 3 4 show ?thesis by blast
qed

lemma collision_invariant:
  "seen (foldl collision_step \<lparr>seen = {}, conflicting = {}, errors = []\<rparr> types) = set types \<and>
   conflicting (foldl collision_step \<lparr>seen = {}, conflicting = {}, errors = []\<rparr> types) =
     {n. 2 \<le> count_list types n} \<and>
   (\<forall>n. length (filter (\<lambda>d. diag_entity d = n)
            (errors (foldl collision_step \<lparr>seen = {}, conflicting = {}, errors = []\<rparr> types))) =
          (if 2 \<le> count_list types n then 1 else 0)) \<and>
   (\<forall>d \<in> set (errors (foldl collision_step \<lparr>seen = {}, conflicting = {}, errors = []\<rparr> types)).
      diag_loc d = \<lparr>loc_start = 1, loc_end = 1\<rparr> \<and>
      diag_message d =
        ''Type '' @ quoted (to_string (diag_entity d)) @ '' is defined more than once'')"
proof (induction types rule: rev_induct)
  case Nil
  show ?case by simp
next
  case (snoc x xs)
  then show ?case
    using collision_step_invariant
      [of "foldl collision_step \<lparr>seen = {}, conflicting = {}, errors = []\<rparr> xs" xs x]
    by (simp only: foldl_append foldl.simps) blast
qed

text \<open>
  Claim C6. For every sequence of gathered type names (the local names, then the
  imported ones), the collision check gives exactly one diagnostic for each name that
  occurs two times or more, however often it occurs, and none for a name that occurs
  once; every diagnostic has the location \<^verbatim>\<open>{start: 1, end: 1}\<close> and the colliding name as
  its entity.
\<close>

theorem one_diagnostic_per_colliding_name:
  "(\<forall>n. length (filter (\<lambda>d. diag_entity d = n) (validateNamingCollisionsInTypes types)) =
         (if 2 \<le> count_list types n then 1 else 0)) \<and>
   (\<forall>d \<in> set (validateNamingCollisionsInTypes types).
      diag_loc d = \<lparr>loc_start = 1, loc_end = 1\<rparr> \<and>
      diag_message d =
        ''Type '' @ quoted (to_string (diag_entity d)) @ '' is defined more than once'') \<and>
   validateNamingCollisions local imported =
     validateNamingCollisionsInTypes (map JStr local @ imported)"
  using collision_invariant [of types]
  by (simp add: validateNamingCollisionsInTypes_def validateNamingCollisions_def)

theorem one_diagnostic_per_colliding_name_witness:
  "length (filter (\<lambda>d. diag_entity d = JStr ''Token'')
     (validateNamingCollisionsInTypes
        [JStr ''Token'', JStr ''User'', JStr ''Token'', JStr ''Token''])) = 1 \<and>
   length (filter (\<lambda>d. diag_entity d = JStr ''User'')
     (validateNamingCollisionsInTypes
        [JStr ''Token'', JStr ''User'', JStr ''Token'', JStr ''Token''])) = 0"
  using one_diagnostic_per_colliding_name
    [of "[JStr ''Token'', JStr ''User'', JStr ''Token'', JStr ''Token'']"]
  by simp

end
